theory Spec2Isabelle
  imports Complex_Main "HOL-Library.AList"
begin

section \<open>JavaScript numbers\<close>

text \<open>
  The TypeScript sources compute with the type \<open>number\<close>.  A number is modelled as an exact
  rational or one of the three special values; the rounding error of binary floating point and
  the sign of zero are not modelled (every zero behaves as \<open>+0\<close>).  What the claims depend on
  is kept: division by zero gives \<open>NaN\<close> or an infinity and never raises, \<open>NaN\<close> propagates
  through arithmetic, every ordering comparison with \<open>NaN\<close> is false, and \<open>NaN\<close> and \<open>0\<close> are
  falsy.
\<close>

datatype number = Num rat | PosInfinity | NegInfinity | NaN

fun isFinite :: "number \<Rightarrow> bool" where
  "isFinite (Num r) = True"
| "isFinite PosInfinity = False"
| "isFinite NegInfinity = False"
| "isFinite NaN = False"

fun js_neg :: "number \<Rightarrow> number" where
  "js_neg (Num r) = Num (- r)"
| "js_neg PosInfinity = NegInfinity"
| "js_neg NegInfinity = PosInfinity"
| "js_neg NaN = NaN"

fun js_add :: "number \<Rightarrow> number \<Rightarrow> number" where
  "js_add NaN y = NaN"
| "js_add x NaN = NaN"
| "js_add (Num a) (Num b) = Num (a + b)"
| "js_add (Num a) y = y"
| "js_add x (Num b) = x"
| "js_add PosInfinity PosInfinity = PosInfinity"
| "js_add NegInfinity NegInfinity = NegInfinity"
| "js_add PosInfinity NegInfinity = NaN"
| "js_add NegInfinity PosInfinity = NaN"

fun js_mul :: "number \<Rightarrow> number \<Rightarrow> number" where
  "js_mul NaN y = NaN"
| "js_mul x NaN = NaN"
| "js_mul (Num a) (Num b) = Num (a * b)"
| "js_mul (Num a) y = (if a = 0 then NaN else if 0 < a then y else js_neg y)"
| "js_mul x (Num b) = (if b = 0 then NaN else if 0 < b then x else js_neg x)"
| "js_mul PosInfinity y = y"
| "js_mul NegInfinity y = js_neg y"

fun js_div :: "number \<Rightarrow> number \<Rightarrow> number" where
  "js_div NaN y = NaN"
| "js_div x NaN = NaN"
| "js_div (Num a) (Num b) =
     (if b = 0 then (if a = 0 then NaN else if 0 < a then PosInfinity else NegInfinity)
      else Num (a / b))"
| "js_div (Num a) y = Num 0"
| "js_div PosInfinity (Num b) = (if 0 \<le> b then PosInfinity else NegInfinity)"
| "js_div NegInfinity (Num b) = (if 0 \<le> b then NegInfinity else PosInfinity)"
| "js_div x y = NaN"

text \<open>\<open>x < y\<close> on numbers: false as soon as one side is \<open>NaN\<close>.\<close>

fun js_lt :: "number \<Rightarrow> number \<Rightarrow> bool" where
  "js_lt NaN y = False"
| "js_lt x NaN = False"
| "js_lt (Num a) (Num b) = (a < b)"
| "js_lt NegInfinity NegInfinity = False"
| "js_lt NegInfinity y = True"
| "js_lt x PosInfinity = (x \<noteq> PosInfinity)"
| "js_lt x y = False"

definition js_gt :: "number \<Rightarrow> number \<Rightarrow> bool" where
  "js_gt x y = js_lt y x"


text \<open>Truthiness of a number, and \<open>x || d\<close> on numbers.\<close>

definition truthy :: "number \<Rightarrow> bool" where
  "truthy x = (x \<noteq> NaN \<and> x \<noteq> Num 0)"

definition js_or :: "number \<Rightarrow> number \<Rightarrow> number" where
  "js_or x d = (if truthy x then x else d)"

text \<open>\<open>Math.round\<close>: the nearest integer, a tie going up; the special values are returned as
  they are.\<close>

fun Math_round :: "number \<Rightarrow> number" where
  "Math_round (Num r) = Num (of_int \<lfloor>r + 1 / 2\<rfloor>)"
| "Math_round x = x"

section \<open>Number formatting\<close>

definition digit_char :: "nat \<Rightarrow> char" where
  "digit_char d = ''0123456789'' ! d"

fun show_nat :: "nat \<Rightarrow> string" where
  "show_nat n = (if n < 10 then [digit_char n] else show_nat (n div 10) @ [digit_char (n mod 10)])"

declare show_nat.simps [simp del]

text \<open>The first \<open>k\<close> decimal digits of a fraction \<open>0 \<le> r < 1\<close>, stopping when nothing is left.\<close>

fun frac_digits :: "nat \<Rightarrow> rat \<Rightarrow> string" where
  "frac_digits 0 r = []"
| "frac_digits (Suc k) r =
     (if r = 0 then []
      else digit_char (nat \<lfloor>r * 10\<rfloor>) # frac_digits k (r * 10 - of_int \<lfloor>r * 10\<rfloor>))"

text \<open>
  \<open>String(x)\<close>, as a template literal applies it.  Integers are printed in full; another finite
  value is printed with its decimal expansion, cut after 17 fractional digits (the exponent
  notation of very large and very small doubles is not modelled).
\<close>

fun js_toString :: "number \<Rightarrow> string" where
  "js_toString NaN = ''NaN''"
| "js_toString PosInfinity = ''Infinity''"
| "js_toString NegInfinity = ''-Infinity''"
| "js_toString (Num r) =
     (let a = \<bar>r\<bar>; i = \<lfloor>a\<rfloor>; f = a - of_int i
      in (if r < 0 then ''-'' else '''') @ show_nat (nat i)
         @ (if f = 0 then '''' else ''.'' @ frac_digits 17 f))"

text \<open>Left padding with zeros to width \<open>d\<close>.\<close>

definition pad_zeros :: "nat \<Rightarrow> string \<Rightarrow> string" where
  "pad_zeros d s = replicate (d - length s) (CHR ''0'') @ s"

text \<open>
  \<open>x.toFixed(d)\<close>: the sign is taken first, the magnitude is rounded to \<open>d\<close> fractional digits
  with a tie going up, and \<open>NaN\<close> and the infinities are printed by name.
\<close>

fun toFixed :: "nat \<Rightarrow> number \<Rightarrow> string" where
  "toFixed d NaN = ''NaN''"
| "toFixed d PosInfinity = ''Infinity''"
| "toFixed d NegInfinity = ''-Infinity''"
| "toFixed d (Num r) =
     (let n = nat \<lfloor>\<bar>r\<bar> * 10 ^ d + 1 / 2\<rfloor>
      in (if r < 0 then ''-'' else '''') @ show_nat (n div 10 ^ d)
         @ (if d = 0 then '''' else ''.'' @ pad_zeros d (show_nat (n mod 10 ^ d))))"

section \<open>Score formatting utilities (client/src/lib/utils/format-data.ts)\<close>

definition formatScoreLevel :: "number \<Rightarrow> string" where
  "formatScoreLevel score =
     (if js_lt score (Num 2) then ''Needs Improvement''
      else if js_lt score (Num 3) then ''Developing''
      else if js_lt score (Num 4) then ''Proficient''
      else if js_lt score (Num (9 / 2)) then ''Advanced''
      else ''Exemplary'')"

definition calculateScorePercentage :: "number \<Rightarrow> number \<Rightarrow> number" where
  "calculateScorePercentage score maxScore = Math_round (js_mul (js_div score maxScore) (Num 100))"

section \<open>Data model (shared/schema.ts)\<close>

text \<open>
  A row type is a record; a column that may be \<open>null\<close> or missing is an \<open>option\<close>; a \<open>jsonb\<close>
  column holds a \<open>json\<close> value; a timestamp is a number of milliseconds.  Field names carry the
  name of their row type as a prefix.
\<close>

type_synonym date = nat

datatype json = JNull | JBool bool | JNum number | JStr string | JArr "json list"
  | JObj "(string \<times> json) list"

datatype Role = Admin | Assessor | Student

datatype AssessmentStatus = Draft | Completed

record User =
  user_id :: number
  user_username :: string
  user_password :: string
  user_email :: string
  user_fullName :: string
  user_role :: Role
  user_createdAt :: date

record InsertUser =
  iu_username :: string
  iu_password :: string
  iu_email :: string
  iu_fullName :: string
  iu_role :: Role

record School =
  school_id :: number
  school_name :: string
  school_address :: "string option"
  school_createdAt :: date

record InsertSchool =
  is_name :: string
  is_address :: "string option"

record Class =
  class_id :: number
  class_name :: string
  class_schoolId :: number
  class_createdAt :: date

record InsertClass =
  ic_name :: string
  ic_schoolId :: number

record Student =
  student_id :: number
  student_userId :: number
  student_classId :: number
  student_createdAt :: date

record InsertStudent =
  ist_userId :: number
  ist_classId :: number

record Assessor =
  assessor_id :: number
  assessor_userId :: number
  assessor_schoolIds :: "number list"
  assessor_createdAt :: date

record InsertAssessor =
  ia_userId :: number
  ia_schoolIds :: "number list"

record RubricTemplate =
  rubric_id :: number
  rubric_name :: string
  rubric_description :: "string option"
  rubric_criteria :: json
  rubric_createdAt :: date

record InsertRubricTemplate =
  ir_name :: string
  ir_description :: "string option"
  ir_criteria :: json

record Task =
  task_id :: number
  task_name :: string
  task_description :: "string option"
  task_rubricTemplateId :: number
  task_createdAt :: date

record InsertTask =
  it_name :: string
  it_description :: "string option"
  it_rubricTemplateId :: number

record ClassTask =
  classTask_id :: number
  classTask_classId :: number
  classTask_taskId :: number
  classTask_createdAt :: date

record InsertClassTask =
  ict_classId :: number
  ict_taskId :: number

text \<open>The \<open>status\<close> column has a database default, so an insert row may omit it; the
  in-memory store then keeps the assessment without a status.\<close>

record Assessment =
  assessment_id :: number
  assessment_studentId :: number
  assessment_assessorId :: number
  assessment_taskId :: number
  assessment_status :: "AssessmentStatus option"
  assessment_scores :: json
  assessment_totalScore :: number
  assessment_feedback :: "string option"
  assessment_pdfPath :: "string option"
  assessment_createdAt :: date
  assessment_updatedAt :: date

record InsertAssessment =
  ias_studentId :: number
  ias_assessorId :: number
  ias_taskId :: number
  ias_status :: "AssessmentStatus option"
  ias_scores :: json
  ias_totalScore :: number
  ias_feedback :: "string option"
  ias_pdfPath :: "string option"

text \<open>
  \<open>Partial<Insert...>\<close>: every key may be absent.  \<open>None\<close> is an absent key and \<open>Some v\<close> a key
  that carries \<open>v\<close> (for a nullable column \<open>Some None\<close> is an explicit \<open>null\<close>).
\<close>

record PartialSchool =
  ps_name :: "string option"
  ps_address :: "string option option"

record PartialClass =
  pc_name :: "string option"
  pc_schoolId :: "number option"

record PartialStudent =
  pst_userId :: "number option"
  pst_classId :: "number option"

record PartialAssessor =
  pa_userId :: "number option"
  pa_schoolIds :: "number list option"

record PartialRubricTemplate =
  pr_name :: "string option"
  pr_description :: "string option option"
  pr_criteria :: "json option"

record PartialTask =
  pt_name :: "string option"
  pt_description :: "string option option"
  pt_rubricTemplateId :: "number option"

record PartialAssessment =
  pas_studentId :: "number option"
  pas_assessorId :: "number option"
  pas_taskId :: "number option"
  pas_status :: "AssessmentStatus option"
  pas_scores :: "json option"
  pas_totalScore :: "number option"
  pas_feedback :: "string option option"
  pas_pdfPath :: "string option option"

text \<open>One key of an object spread \<open>{ ...existing, ...partial }\<close>: a key the partial object
  carries wins, an absent key leaves the existing value.\<close>

definition spread :: "'a \<Rightarrow> 'a option \<Rightarrow> 'a" where
  "spread old new = (case new of None \<Rightarrow> old | Some v \<Rightarrow> v)"

section \<open>The in-memory store (MemStorage)\<close>

text \<open>
  A \<open>Map<number, V>\<close> is an association list in insertion order: \<open>set\<close> replaces the value of a
  key in place or appends a new key, \<open>delete\<close> removes the key and reports whether it was there,
  \<open>values()\<close> lists the values in order.  Keys are compared with the equality of HOL, which on
  \<open>number\<close> is the key equality of a \<open>Map\<close> (\<open>NaN\<close> is a key equal to itself).
\<close>

type_synonym 'v js_map = "(number \<times> 'v) list"

definition map_get :: "'v js_map \<Rightarrow> number \<Rightarrow> 'v option" where
  "map_get m k = map_of m k"

definition map_set :: "number \<Rightarrow> 'v \<Rightarrow> 'v js_map \<Rightarrow> 'v js_map" where
  "map_set k v m = AList.update k v m"

definition map_has :: "'v js_map \<Rightarrow> number \<Rightarrow> bool" where
  "map_has m k = (map_of m k \<noteq> None)"

definition map_delete :: "number \<Rightarrow> 'v js_map \<Rightarrow> 'v js_map" where
  "map_delete k m = AList.delete k m"

definition map_values :: "'v js_map \<Rightarrow> 'v list" where
  "map_values m = map snd m"

text \<open>
  The nine maps and the nine id counters of the class.  A method becomes a function from the
  store (and the time each \<open>new Date()\<close> of the method returns) to its result and the store it
  leaves.
\<close>

record store =
  users :: "User js_map"
  schools :: "School js_map"
  classes :: "Class js_map"
  students :: "Student js_map"
  assessors :: "Assessor js_map"
  rubricTemplates :: "RubricTemplate js_map"
  tasks :: "Task js_map"
  classTasks :: "ClassTask js_map"
  assessments :: "Assessment js_map"
  userId :: number
  schoolId :: number
  classId :: number
  studentId :: number
  assessorId :: number
  rubricTemplateId :: number
  taskId :: number
  classTaskId :: number
  assessmentId :: number

text \<open>\<open>x++\<close> on a counter leaves \<open>x + 1\<close>.\<close>

definition incr :: "number \<Rightarrow> number" where
  "incr x = js_add x (Num 1)"

subsection \<open>Users\<close>

definition createUser :: "date \<Rightarrow> InsertUser \<Rightarrow> store \<Rightarrow> User \<times> store" where
  "createUser now user st =
     (let id' = userId st;
          newUser = \<lparr>user_id = id', user_username = iu_username user,
            user_password = iu_password user, user_email = iu_email user,
            user_fullName = iu_fullName user, user_role = iu_role user, user_createdAt = now\<rparr>
      in (newUser, st\<lparr>users := map_set id' newUser (users st), userId := incr (userId st)\<rparr>))"

subsection \<open>Schools\<close>

definition createSchool :: "date \<Rightarrow> InsertSchool \<Rightarrow> store \<Rightarrow> School \<times> store" where
  "createSchool now school st =
     (let id' = schoolId st;
          newSchool = \<lparr>school_id = id', school_name = is_name school,
            school_address = is_address school, school_createdAt = now\<rparr>
      in (newSchool, st\<lparr>schools := map_set id' newSchool (schools st),
            schoolId := incr (schoolId st)\<rparr>))"

definition updateSchool :: "number \<Rightarrow> PartialSchool \<Rightarrow> store \<Rightarrow> School option \<times> store" where
  "updateSchool id' school st =
     (case map_get (schools st) id' of
        None \<Rightarrow> (None, st)
      | Some existingSchool \<Rightarrow>
          (let updatedSchool = existingSchool
                 \<lparr>school_name := spread (school_name existingSchool) (ps_name school),
                  school_address := spread (school_address existingSchool) (ps_address school)\<rparr>
           in (Some updatedSchool, st\<lparr>schools := map_set id' updatedSchool (schools st)\<rparr>)))"

definition deleteSchool :: "number \<Rightarrow> store \<Rightarrow> bool \<times> store" where
  "deleteSchool id' st = (map_has (schools st) id', st\<lparr>schools := map_delete id' (schools st)\<rparr>)"

subsection \<open>Classes\<close>

definition createClass :: "date \<Rightarrow> InsertClass \<Rightarrow> store \<Rightarrow> Class \<times> store" where
  "createClass now cls st =
     (let id' = classId st;
          newClass = \<lparr>class_id = id', class_name = ic_name cls, class_schoolId = ic_schoolId cls,
            class_createdAt = now\<rparr>
      in (newClass, st\<lparr>classes := map_set id' newClass (classes st),
            classId := incr (classId st)\<rparr>))"

definition updateClass :: "number \<Rightarrow> PartialClass \<Rightarrow> store \<Rightarrow> Class option \<times> store" where
  "updateClass id' cls st =
     (case map_get (classes st) id' of
        None \<Rightarrow> (None, st)
      | Some existingClass \<Rightarrow>
          (let updatedClass = existingClass
                 \<lparr>class_name := spread (class_name existingClass) (pc_name cls),
                  class_schoolId := spread (class_schoolId existingClass) (pc_schoolId cls)\<rparr>
           in (Some updatedClass, st\<lparr>classes := map_set id' updatedClass (classes st)\<rparr>)))"

definition deleteClass :: "number \<Rightarrow> store \<Rightarrow> bool \<times> store" where
  "deleteClass id' st = (map_has (classes st) id', st\<lparr>classes := map_delete id' (classes st)\<rparr>)"

subsection \<open>Students\<close>

text \<open>\<open>createStudent\<close> overrides the role of the user data, creates the user, and then the
  student that points to it; \<open>userNow\<close> and \<open>now\<close> are the two times it reads.\<close>

definition createStudent ::
    "date \<Rightarrow> date \<Rightarrow> InsertStudent \<Rightarrow> InsertUser \<Rightarrow> store \<Rightarrow> Student \<times> store" where
  "createStudent userNow now student userData st =
     (let userWithRole = userData\<lparr>iu_role := Student\<rparr>;
          (user, st1) = createUser userNow userWithRole st;
          id' = studentId st1;
          newStudent = \<lparr>student_id = id', student_userId = user_id user,
            student_classId = ist_classId student, student_createdAt = now\<rparr>
      in (newStudent, st1\<lparr>students := map_set id' newStudent (students st1),
            studentId := incr (studentId st1)\<rparr>))"

definition updateStudent :: "number \<Rightarrow> PartialStudent \<Rightarrow> store \<Rightarrow> Student option \<times> store" where
  "updateStudent id' student st =
     (case map_get (students st) id' of
        None \<Rightarrow> (None, st)
      | Some existingStudent \<Rightarrow>
          (let updatedStudent = existingStudent
                 \<lparr>student_userId := spread (student_userId existingStudent) (pst_userId student),
                  student_classId := spread (student_classId existingStudent) (pst_classId student)\<rparr>
           in (Some updatedStudent, st\<lparr>students := map_set id' updatedStudent (students st)\<rparr>)))"

definition deleteStudent :: "number \<Rightarrow> store \<Rightarrow> bool \<times> store" where
  "deleteStudent id' st =
     (let st1 = (case map_get (students st) id' of
                   Some student \<Rightarrow> st\<lparr>users := map_delete (student_userId student) (users st)\<rparr>
                 | None \<Rightarrow> st)
      in (map_has (students st1) id', st1\<lparr>students := map_delete id' (students st1)\<rparr>))"

subsection \<open>Assessors\<close>

definition createAssessor ::
    "date \<Rightarrow> date \<Rightarrow> InsertAssessor \<Rightarrow> InsertUser \<Rightarrow> store \<Rightarrow> Assessor \<times> store" where
  "createAssessor userNow now assessor userData st =
     (let userWithRole = userData\<lparr>iu_role := Assessor\<rparr>;
          (user, st1) = createUser userNow userWithRole st;
          id' = assessorId st1;
          newAssessor = \<lparr>assessor_id = id', assessor_userId = user_id user,
            assessor_schoolIds = ia_schoolIds assessor, assessor_createdAt = now\<rparr>
      in (newAssessor, st1\<lparr>assessors := map_set id' newAssessor (assessors st1),
            assessorId := incr (assessorId st1)\<rparr>))"

definition updateAssessor :: "number \<Rightarrow> PartialAssessor \<Rightarrow> store \<Rightarrow> Assessor option \<times> store" where
  "updateAssessor id' assessor st =
     (case map_get (assessors st) id' of
        None \<Rightarrow> (None, st)
      | Some existingAssessor \<Rightarrow>
          (let updatedAssessor = existingAssessor
                 \<lparr>assessor_userId := spread (assessor_userId existingAssessor) (pa_userId assessor),
                  assessor_schoolIds :=
                    spread (assessor_schoolIds existingAssessor) (pa_schoolIds assessor)\<rparr>
           in (Some updatedAssessor,
               st\<lparr>assessors := map_set id' updatedAssessor (assessors st)\<rparr>)))"

definition deleteAssessor :: "number \<Rightarrow> store \<Rightarrow> bool \<times> store" where
  "deleteAssessor id' st =
     (let st1 = (case map_get (assessors st) id' of
                   Some assessor \<Rightarrow>
                     st\<lparr>users := map_delete (assessor_userId assessor) (users st)\<rparr>
                 | None \<Rightarrow> st)
      in (map_has (assessors st1) id', st1\<lparr>assessors := map_delete id' (assessors st1)\<rparr>))"

subsection \<open>Rubric templates\<close>

definition createRubricTemplate ::
    "date \<Rightarrow> InsertRubricTemplate \<Rightarrow> store \<Rightarrow> RubricTemplate \<times> store" where
  "createRubricTemplate now template st =
     (let id' = rubricTemplateId st;
          newTemplate = \<lparr>rubric_id = id', rubric_name = ir_name template,
            rubric_description = ir_description template, rubric_criteria = ir_criteria template,
            rubric_createdAt = now\<rparr>
      in (newTemplate, st\<lparr>rubricTemplates := map_set id' newTemplate (rubricTemplates st),
            rubricTemplateId := incr (rubricTemplateId st)\<rparr>))"

definition updateRubricTemplate ::
    "number \<Rightarrow> PartialRubricTemplate \<Rightarrow> store \<Rightarrow> RubricTemplate option \<times> store" where
  "updateRubricTemplate id' template st =
     (case map_get (rubricTemplates st) id' of
        None \<Rightarrow> (None, st)
      | Some existingTemplate \<Rightarrow>
          (let updatedTemplate = existingTemplate
                 \<lparr>rubric_name := spread (rubric_name existingTemplate) (pr_name template),
                  rubric_description :=
                    spread (rubric_description existingTemplate) (pr_description template),
                  rubric_criteria :=
                    spread (rubric_criteria existingTemplate) (pr_criteria template)\<rparr>
           in (Some updatedTemplate,
               st\<lparr>rubricTemplates := map_set id' updatedTemplate (rubricTemplates st)\<rparr>)))"

definition deleteRubricTemplate :: "number \<Rightarrow> store \<Rightarrow> bool \<times> store" where
  "deleteRubricTemplate id' st =
     (map_has (rubricTemplates st) id',
      st\<lparr>rubricTemplates := map_delete id' (rubricTemplates st)\<rparr>)"

subsection \<open>Tasks\<close>

definition createTask :: "date \<Rightarrow> InsertTask \<Rightarrow> store \<Rightarrow> Task \<times> store" where
  "createTask now task st =
     (let id' = taskId st;
          newTask = \<lparr>task_id = id', task_name = it_name task,
            task_description = it_description task,
            task_rubricTemplateId = it_rubricTemplateId task, task_createdAt = now\<rparr>
      in (newTask, st\<lparr>tasks := map_set id' newTask (tasks st), taskId := incr (taskId st)\<rparr>))"

definition updateTask :: "number \<Rightarrow> PartialTask \<Rightarrow> store \<Rightarrow> Task option \<times> store" where
  "updateTask id' task st =
     (case map_get (tasks st) id' of
        None \<Rightarrow> (None, st)
      | Some existingTask \<Rightarrow>
          (let updatedTask = existingTask
                 \<lparr>task_name := spread (task_name existingTask) (pt_name task),
                  task_description := spread (task_description existingTask) (pt_description task),
                  task_rubricTemplateId :=
                    spread (task_rubricTemplateId existingTask) (pt_rubricTemplateId task)\<rparr>
           in (Some updatedTask, st\<lparr>tasks := map_set id' updatedTask (tasks st)\<rparr>)))"

definition deleteTask :: "number \<Rightarrow> store \<Rightarrow> bool \<times> store" where
  "deleteTask id' st = (map_has (tasks st) id', st\<lparr>tasks := map_delete id' (tasks st)\<rparr>)"

subsection \<open>Class tasks\<close>

definition createClassTask :: "date \<Rightarrow> InsertClassTask \<Rightarrow> store \<Rightarrow> ClassTask \<times> store" where
  "createClassTask now classTask st =
     (let id' = classTaskId st;
          newClassTask = \<lparr>classTask_id = id', classTask_classId = ict_classId classTask,
            classTask_taskId = ict_taskId classTask, classTask_createdAt = now\<rparr>
      in (newClassTask, st\<lparr>classTasks := map_set id' newClassTask (classTasks st),
            classTaskId := incr (classTaskId st)\<rparr>))"

definition deleteClassTask :: "number \<Rightarrow> store \<Rightarrow> bool \<times> store" where
  "deleteClassTask id' st =
     (map_has (classTasks st) id', st\<lparr>classTasks := map_delete id' (classTasks st)\<rparr>)"

subsection \<open>Assessments\<close>

definition getAssessment :: "number \<Rightarrow> store \<Rightarrow> Assessment option" where
  "getAssessment id' st = map_get (assessments st) id'"







definition createAssessment :: "date \<Rightarrow> InsertAssessment \<Rightarrow> store \<Rightarrow> Assessment \<times> store" where
  "createAssessment now assessment st =
     (let id' = assessmentId st;
          newAssessment = \<lparr>assessment_id = id', assessment_studentId = ias_studentId assessment,
            assessment_assessorId = ias_assessorId assessment,
            assessment_taskId = ias_taskId assessment, assessment_status = ias_status assessment,
            assessment_scores = ias_scores assessment,
            assessment_totalScore = ias_totalScore assessment,
            assessment_feedback = ias_feedback assessment,
            assessment_pdfPath = ias_pdfPath assessment,
            assessment_createdAt = now, assessment_updatedAt = now\<rparr>
      in (newAssessment, st\<lparr>assessments := map_set id' newAssessment (assessments st),
            assessmentId := incr (assessmentId st)\<rparr>))"

definition updateAssessment ::
    "date \<Rightarrow> number \<Rightarrow> PartialAssessment \<Rightarrow> store \<Rightarrow> Assessment option \<times> store" where
  "updateAssessment now id' assessment st =
     (case map_get (assessments st) id' of
        None \<Rightarrow> (None, st)
      | Some existingAssessment \<Rightarrow>
          (let updatedAssessment = existingAssessment
                 \<lparr>assessment_studentId :=
                    spread (assessment_studentId existingAssessment) (pas_studentId assessment),
                  assessment_assessorId :=
                    spread (assessment_assessorId existingAssessment) (pas_assessorId assessment),
                  assessment_taskId :=
                    spread (assessment_taskId existingAssessment) (pas_taskId assessment),
                  assessment_status :=
                    (case pas_status assessment of
                       None \<Rightarrow> assessment_status existingAssessment
                     | Some v \<Rightarrow> Some v),
                  assessment_scores :=
                    spread (assessment_scores existingAssessment) (pas_scores assessment),
                  assessment_totalScore :=
                    spread (assessment_totalScore existingAssessment) (pas_totalScore assessment),
                  assessment_feedback :=
                    spread (assessment_feedback existingAssessment) (pas_feedback assessment),
                  assessment_pdfPath :=
                    spread (assessment_pdfPath existingAssessment) (pas_pdfPath assessment),
                  assessment_updatedAt := now\<rparr>
           in (Some updatedAssessment,
               st\<lparr>assessments := map_set id' updatedAssessment (assessments st)\<rparr>)))"

definition deleteAssessment :: "number \<Rightarrow> store \<Rightarrow> bool \<times> store" where
  "deleteAssessment id' st =
     (map_has (assessments st) id', st\<lparr>assessments := map_delete id' (assessments st)\<rparr>)"

text \<open>\<open>AssessmentWithRelations\<close>: the assessment with its student, assessor and task, each with
  the row it points to.\<close>

record AssessmentWithRelations =
  awr_assessment :: Assessment
  awr_student :: Student
  awr_studentUser :: User
  awr_assessor :: Assessor
  awr_assessorUser :: User
  awr_task :: Task
  awr_rubricTemplate :: RubricTemplate

definition getAssessmentWithRelations :: "number \<Rightarrow> store \<Rightarrow> AssessmentWithRelations option" where
  "getAssessmentWithRelations id' st =
     (case map_get (assessments st) id' of None \<Rightarrow> None | Some assessment \<Rightarrow>
      case map_get (students st) (assessment_studentId assessment) of None \<Rightarrow> None | Some student \<Rightarrow>
      case map_get (users st) (student_userId student) of None \<Rightarrow> None | Some studentUser \<Rightarrow>
      case map_get (assessors st) (assessment_assessorId assessment) of None \<Rightarrow> None | Some assessor \<Rightarrow>
      case map_get (users st) (assessor_userId assessor) of None \<Rightarrow> None | Some assessorUser \<Rightarrow>
      case map_get (tasks st) (assessment_taskId assessment) of None \<Rightarrow> None | Some task \<Rightarrow>
      case map_get (rubricTemplates st) (task_rubricTemplateId task) of None \<Rightarrow> None
      | Some rubricTemplate \<Rightarrow>
          Some \<lparr>awr_assessment = assessment, awr_student = student, awr_studentUser = studentUser,
            awr_assessor = assessor, awr_assessorUser = assessorUser, awr_task = task,
            awr_rubricTemplate = rubricTemplate\<rparr>)"

subsection \<open>Construction and demo data\<close>

definition emptyStore :: store where
  "emptyStore = \<lparr>users = [], schools = [], classes = [], students = [], assessors = [],
     rubricTemplates = [], tasks = [], classTasks = [], assessments = [],
     userId = Num 1, schoolId = Num 1, classId = Num 1, studentId = Num 1, assessorId = Num 1,
     rubricTemplateId = Num 1, taskId = Num 1, classTaskId = Num 1, assessmentId = Num 1\<rparr>"

definition criterion_json :: "rat \<Rightarrow> string \<Rightarrow> string \<Rightarrow> json" where
  "criterion_json i name description =
     JObj [(''id'', JNum (Num i)), (''name'', JStr name), (''description'', JStr description)]"

text \<open>\<open>seedDemoData\<close>, statement by statement; \<open>now\<close> is the time of construction.\<close>

definition seedDemoData :: "date \<Rightarrow> store \<Rightarrow> store" where
  "seedDemoData now st0 =
     (let adminUser = \<lparr>user_id = userId st0, user_username = ''admin'',
            user_password = ''admin123'', user_email = ''admin@example.com'',
            user_fullName = ''Admin User'', user_role = Admin, user_createdAt = now\<rparr>;
          st1 = st0\<lparr>userId := incr (userId st0)\<rparr>;
          st2 = st1\<lparr>users := map_set (user_id adminUser) adminUser (users st1)\<rparr>;
          school1 = \<lparr>school_id = schoolId st2, school_name = ''Westside High School'',
            school_address = Some ''123 West Street'', school_createdAt = now\<rparr>;
          st3 = st2\<lparr>schoolId := incr (schoolId st2)\<rparr>;
          st4 = st3\<lparr>schools := map_set (school_id school1) school1 (schools st3)\<rparr>;
          school2 = \<lparr>school_id = schoolId st4, school_name = ''Eastside Academy'',
            school_address = Some ''456 East Avenue'', school_createdAt = now\<rparr>;
          st5 = st4\<lparr>schoolId := incr (schoolId st4)\<rparr>;
          st6 = st5\<lparr>schools := map_set (school_id school2) school2 (schools st5)\<rparr>;
          class1 = \<lparr>class_id = classId st6, class_name = ''English 10A'',
            class_schoolId = school_id school1, class_createdAt = now\<rparr>;
          st7 = st6\<lparr>classId := incr (classId st6)\<rparr>;
          st8 = st7\<lparr>classes := map_set (class_id class1) class1 (classes st7)\<rparr>;
          class2 = \<lparr>class_id = classId st8, class_name = ''Science 11B'',
            class_schoolId = school_id school1, class_createdAt = now\<rparr>;
          st9 = st8\<lparr>classId := incr (classId st8)\<rparr>;
          st10 = st9\<lparr>classes := map_set (class_id class2) class2 (classes st9)\<rparr>;
          class3 = \<lparr>class_id = classId st10, class_name = ''Literature 12C'',
            class_schoolId = school_id school2, class_createdAt = now\<rparr>;
          st11 = st10\<lparr>classId := incr (classId st10)\<rparr>;
          st12 = st11\<lparr>classes := map_set (class_id class3) class3 (classes st11)\<rparr>;
          assessorUser = \<lparr>user_id = userId st12, user_username = ''assessor'',
            user_password = ''assessor123'', user_email = ''assessor@example.com'',
            user_fullName = ''John Smith'', user_role = Assessor, user_createdAt = now\<rparr>;
          st13 = st12\<lparr>userId := incr (userId st12)\<rparr>;
          st14 = st13\<lparr>users := map_set (user_id assessorUser) assessorUser (users st13)\<rparr>;
          assessor = \<lparr>assessor_id = assessorId st14, assessor_userId = user_id assessorUser,
            assessor_schoolIds = [school_id school1, school_id school2],
            assessor_createdAt = now\<rparr>;
          st15 = st14\<lparr>assessorId := incr (assessorId st14)\<rparr>;
          st16 = st15\<lparr>assessors := map_set (assessor_id assessor) assessor (assessors st15)\<rparr>;
          studentUser1 = \<lparr>user_id = userId st16, user_username = ''student1'',
            user_password = ''student123'', user_email = ''student1@example.com'',
            user_fullName = ''Jordan Smith'', user_role = Student, user_createdAt = now\<rparr>;
          st17 = st16\<lparr>userId := incr (userId st16)\<rparr>;
          st18 = st17\<lparr>users := map_set (user_id studentUser1) studentUser1 (users st17)\<rparr>;
          studentUser2 = \<lparr>user_id = userId st18, user_username = ''student2'',
            user_password = ''student123'', user_email = ''student2@example.com'',
            user_fullName = ''Emma Johnson'', user_role = Student, user_createdAt = now\<rparr>;
          st19 = st18\<lparr>userId := incr (userId st18)\<rparr>;
          st20 = st19\<lparr>users := map_set (user_id studentUser2) studentUser2 (users st19)\<rparr>;
          student1 = \<lparr>student_id = studentId st20, student_userId = user_id studentUser1,
            student_classId = class_id class1, student_createdAt = now\<rparr>;
          st21 = st20\<lparr>studentId := incr (studentId st20)\<rparr>;
          st22 = st21\<lparr>students := map_set (student_id student1) student1 (students st21)\<rparr>;
          student2 = \<lparr>student_id = studentId st22, student_userId = user_id studentUser2,
            student_classId = class_id class1, student_createdAt = now\<rparr>;
          st23 = st22\<lparr>studentId := incr (studentId st22)\<rparr>;
          st24 = st23\<lparr>students := map_set (student_id student2) student2 (students st23)\<rparr>;
          writingRubric = \<lparr>rubric_id = rubricTemplateId st24,
            rubric_name = ''Writing Skills Rubric'',
            rubric_description = Some ''Rubric for evaluating writing skills'',
            rubric_criteria = JArr
              [criterion_json 1 ''Content Knowledge''
                 ''Understanding of key concepts and subject matter'',
               criterion_json 2 ''Analysis & Critical Thinking''
                 ''Ability to analyze information, draw conclusions, and think critically'',
               criterion_json 3 ''Organization & Structure''
                 ''Logical organization and clear structure of ideas and information'',
               criterion_json 4 ''Language & Communication''
                 ''Use of appropriate language, grammar, and ability to communicate ideas'',
               criterion_json 5 ''Creativity & Innovation''
                 ''Original thinking, creative solutions, and innovative approaches''],
            rubric_createdAt = now\<rparr>;
          st25 = st24\<lparr>rubricTemplateId := incr (rubricTemplateId st24)\<rparr>;
          st26 = st25\<lparr>rubricTemplates :=
            map_set (rubric_id writingRubric) writingRubric (rubricTemplates st25)\<rparr>;
          task1 = \<lparr>task_id = taskId st26, task_name = ''Text Response Essay'',
            task_description = Some ''Write a response to the provided text'',
            task_rubricTemplateId = rubric_id writingRubric, task_createdAt = now\<rparr>;
          st27 = st26\<lparr>taskId := incr (taskId st26)\<rparr>;
          st28 = st27\<lparr>tasks := map_set (task_id task1) task1 (tasks st27)\<rparr>;
          task2 = \<lparr>task_id = taskId st28, task_name = ''Creative Writing Assignment'',
            task_description = Some ''Create an original piece of creative writing'',
            task_rubricTemplateId = rubric_id writingRubric, task_createdAt = now\<rparr>;
          st29 = st28\<lparr>taskId := incr (taskId st28)\<rparr>;
          st30 = st29\<lparr>tasks := map_set (task_id task2) task2 (tasks st29)\<rparr>;
          classTask1 = \<lparr>classTask_id = classTaskId st30, classTask_classId = class_id class1,
            classTask_taskId = task_id task1, classTask_createdAt = now\<rparr>;
          st31 = st30\<lparr>classTaskId := incr (classTaskId st30)\<rparr>;
          st32 = st31\<lparr>classTasks :=
            map_set (classTask_id classTask1) classTask1 (classTasks st31)\<rparr>;
          classTask2 = \<lparr>classTask_id = classTaskId st32, classTask_classId = class_id class1,
            classTask_taskId = task_id task2, classTask_createdAt = now\<rparr>;
          st33 = st32\<lparr>classTaskId := incr (classTaskId st32)\<rparr>;
          st34 = st33\<lparr>classTasks :=
            map_set (classTask_id classTask2) classTask2 (classTasks st33)\<rparr>;
          assessment1 = \<lparr>assessment_id = assessmentId st34,
            assessment_studentId = student_id student1,
            assessment_assessorId = assessor_id assessor, assessment_taskId = task_id task1,
            assessment_status = Some Completed,
            assessment_scores = JObj [(''1'', JNum (Num 3)), (''2'', JNum (Num 4)),
              (''3'', JNum (Num 5)), (''4'', JNum (Num 3)), (''5'', JNum (Num 4))],
            assessment_totalScore = Num 19,
            assessment_feedback = Some ''Jordan demonstrates excellent organization and structure in their essay. Their analytical skills are strong, showing good critical thinking in their interpretation of the text. Areas for improvement include expanding content knowledge with more specific examples from the text, and working on grammar and sentence structure for clearer communication. Overall, this is a solid effort with great potential for further development.'',
            assessment_pdfPath = Some ''/pdfs/JordanSmith_TextResponseEssay.pdf'',
            assessment_createdAt = now, assessment_updatedAt = now\<rparr>;
          st35 = st34\<lparr>assessmentId := incr (assessmentId st34)\<rparr>
      in st35\<lparr>assessments :=
           map_set (assessment_id assessment1) assessment1 (assessments st35)\<rparr>)"

text \<open>The constructor: empty maps, counters at 1, then the demo data.\<close>

definition newMemStorage :: "date \<Rightarrow> store" where
  "newMemStorage now = seedDemoData now emptyStore"

subsection \<open>Sequences of create operations\<close>

text \<open>A call of one of the nine create methods, with its arguments and the times it reads,
  and the store a sequence of such calls leaves.\<close>

datatype create_op =
    CreateUser date InsertUser
  | CreateSchool date InsertSchool
  | CreateClass date InsertClass
  | CreateStudent date date InsertStudent InsertUser
  | CreateAssessor date date InsertAssessor InsertUser
  | CreateRubricTemplate date InsertRubricTemplate
  | CreateTask date InsertTask
  | CreateClassTask date InsertClassTask
  | CreateAssessment date InsertAssessment

fun apply_create :: "create_op \<Rightarrow> store \<Rightarrow> store" where
  "apply_create (CreateUser now user) st = snd (createUser now user st)"
| "apply_create (CreateSchool now school) st = snd (createSchool now school st)"
| "apply_create (CreateClass now cls) st = snd (createClass now cls st)"
| "apply_create (CreateStudent userNow now student userData) st =
     snd (createStudent userNow now student userData st)"
| "apply_create (CreateAssessor userNow now assessor userData) st =
     snd (createAssessor userNow now assessor userData st)"
| "apply_create (CreateRubricTemplate now template) st = snd (createRubricTemplate now template st)"
| "apply_create (CreateTask now task) st = snd (createTask now task st)"
| "apply_create (CreateClassTask now classTask) st = snd (createClassTask now classTask st)"
| "apply_create (CreateAssessment now assessment) st = snd (createAssessment now assessment st)"

definition run_creates :: "create_op list \<Rightarrow> store \<Rightarrow> store" where
  "run_creates ops st = foldl (\<lambda>s c. apply_create c s) st ops"

text \<open>The user of a student has the role of a student, the user of an assessor the role of
  an assessor; and the state in which this holds of every student and assessor of the store.\<close>

definition student_linked :: "store \<Rightarrow> Student \<Rightarrow> bool" where
  "student_linked st s =
     (case map_get (users st) (student_userId s) of
        Some u \<Rightarrow> user_role u = Student
      | None \<Rightarrow> False)"

definition assessor_linked :: "store \<Rightarrow> Assessor \<Rightarrow> bool" where
  "assessor_linked st a =
     (case map_get (users st) (assessor_userId a) of
        Some u \<Rightarrow> user_role u = Assessor
      | None \<Rightarrow> False)"

definition roles_consistent :: "store \<Rightarrow> bool" where
  "roles_consistent st =
     (list_all (student_linked st) (map_values (students st)) \<and>
      list_all (assessor_linked st) (map_values (assessors st)))"

text \<open>The counter of user ids is a number above every id in use, as it is in every store
  that the constructor and the methods produce.\<close>

definition users_fresh :: "store \<Rightarrow> bool" where
  "users_fresh st =
     (case userId st of
        Num n \<Rightarrow> list_all (\<lambda>k. case k of Num m \<Rightarrow> m < n | _ \<Rightarrow> False) (map fst (users st))
      | _ \<Rightarrow> False)"

text \<open>A sequence of creations that passes every role to each of the three methods that create
  a user.\<close>

definition example_user :: "Role \<Rightarrow> InsertUser" where
  "example_user r = \<lparr>iu_username = ''new'', iu_password = ''secret'',
     iu_email = ''new@example.com'', iu_fullName = ''New User'', iu_role = r\<rparr>"

definition example_creates :: "create_op list" where
  "example_creates =
     [CreateStudent 1 2 \<lparr>ist_userId = Num 1, ist_classId = Num 1\<rparr> (example_user Admin),
      CreateAssessor 3 4 \<lparr>ia_userId = Num 1, ia_schoolIds = [Num 1]\<rparr> (example_user Student),
      CreateUser 5 (example_user Assessor),
      CreateStudent 6 7 \<lparr>ist_userId = Num 2, ist_classId = Num 2\<rparr> (example_user Assessor),
      CreateSchool 8 \<lparr>is_name = ''Northside'', is_address = None\<rparr>]"

section \<open>PDF reports (client/src/lib/utils/pdf-generator.ts)\<close>

text \<open>
  The two generators drive the libraries jsPDF and jspdf-autotable, which are not part of the
  repository.  A document is modelled by what the generator asks of the library: the sequence
  of calls with their arguments, in order, and the number of pages.  A table is laid out by
  the library, so what a call of \<open>autoTable\<close> reports back (the \<open>finalY\<close> below the table, if
  any, and the pages the table adds) is a parameter of the model, as are the formatting of dates
  and the page size.  Of the styling of a table only the fill colour of its head is kept.
\<close>

type_synonym colour = "number \<times> number \<times> number"

record autoTable_options =
  at_startY :: number
  at_head :: "string list list"
  at_body :: "string list list"
  at_theme :: "string option"
  at_headFillColor :: "colour option"

datatype pdf_op =
    SetFillColor number number number
  | Rect number number number number string
  | SetTextColor number number number
  | SetFontSize number
  | Text string number number "string option"
  | SetDrawColor number number number
  | Line number number number number
  | AutoTable autoTable_options
  | AddPage
  | SetPage nat
  | Save string

record doc =
  doc_ops :: "pdf_op list"
  doc_pages :: nat
  doc_lastFinalY :: "number option"

record env =
  env_now :: date
  env_toLocaleDateString :: "date \<Rightarrow> string"
  env_toISODate :: "date \<Rightarrow> string"
  env_pageWidth :: number
  env_pageHeight :: number
  env_tableLayout :: "doc \<Rightarrow> autoTable_options \<Rightarrow> number option \<times> nat"

text \<open>\<open>new jsPDF()\<close>: one page, nothing drawn.\<close>

definition new_jsPDF :: doc where
  "new_jsPDF = \<lparr>doc_ops = [], doc_pages = 1, doc_lastFinalY = None\<rparr>"

definition emit :: "pdf_op \<Rightarrow> doc \<Rightarrow> doc" where
  "emit c d = d\<lparr>doc_ops := doc_ops d @ [c]\<rparr>"

definition addPage :: "doc \<Rightarrow> doc" where
  "addPage d = (emit AddPage d)\<lparr>doc_pages := Suc (doc_pages d)\<rparr>"

definition autoTable :: "env \<Rightarrow> autoTable_options \<Rightarrow> doc \<Rightarrow> doc" where
  "autoTable e opts d =
     (let (finalY, pages) = env_tableLayout e d opts
      in (emit (AutoTable opts) d)\<lparr>doc_pages := doc_pages d + pages, doc_lastFinalY := finalY\<rparr>)"

text \<open>\<open>lastAutoTable?.finalY || d\<close>: the default also replaces a \<open>finalY\<close> of \<open>0\<close> or \<open>NaN\<close>.\<close>

definition finalY_or :: "doc \<Rightarrow> number \<Rightarrow> number" where
  "finalY_or d dflt = (case doc_lastFinalY d of None \<Rightarrow> dflt | Some y \<Rightarrow> js_or y dflt)"

text \<open>Strings: truthiness of an optional string, \<open>trim\<close> (the white space of ASCII), and
  \<open>replace(/\\s+/g, r)\<close>.\<close>

definition is_space :: "char \<Rightarrow> bool" where
  "is_space c = (c \<in> set [CHR '' '', CHR 0x09, CHR 0x0A, CHR 0x0B, CHR 0x0C, CHR 0x0D])"

definition trim :: "string \<Rightarrow> string" where
  "trim s = rev (dropWhile is_space (rev (dropWhile is_space s)))"

definition str_given :: "string option \<Rightarrow> bool" where
  "str_given v = (case v of None \<Rightarrow> False | Some s \<Rightarrow> s \<noteq> [])"

definition str_or :: "string option \<Rightarrow> string \<Rightarrow> string" where
  "str_or v dflt = (if str_given v then the v else dflt)"

fun replace_runs :: "bool \<Rightarrow> string \<Rightarrow> string \<Rightarrow> string" where
  "replace_runs in_run r [] = []"
| "replace_runs in_run r (c # cs) =
     (if is_space c then (if in_run then replace_runs True r cs else r @ replace_runs True r cs)
      else c # replace_runs False r cs)"

definition replace_spaces :: "string \<Rightarrow> string \<Rightarrow> string" where
  "replace_spaces r s = replace_runs False r s"

subsection \<open>The assessment feedback preview\<close>

record criterion =
  crit_name :: string
  crit_description :: "string option"
  crit_score :: number
  crit_feedback :: "string option"

record AssessmentPdfOptions =
  opt_studentName :: string
  opt_assessorName :: string
  opt_taskName :: string
  opt_criteria :: "criterion list"
  opt_overallFeedback :: "string option"
  opt_totalScore :: number
  opt_date :: date

text \<open>The score percentage of the preview: the maximum is five points for each criterion,
  and a total that is not finite counts as \<open>0\<close>.\<close>

definition maxTotalScore :: "criterion list \<Rightarrow> number" where
  "maxTotalScore criteria = js_mul (Num (of_nat (length criteria))) (Num 5)"

definition validTotalScore :: "number \<Rightarrow> number" where
  "validTotalScore totalScore = (if isFinite totalScore then totalScore else Num 0)"

definition scorePercentage :: "criterion list \<Rightarrow> number \<Rightarrow> number" where
  "scorePercentage criteria totalScore =
     Math_round (js_mul (js_div (validTotalScore totalScore) (maxTotalScore criteria)) (Num 100))"

definition fillColor :: "number \<Rightarrow> colour" where
  "fillColor percentage =
     (if js_lt percentage (Num 40) then (Num 231, Num 76, Num 60)
      else if js_lt percentage (Num 60) then (Num 243, Num 156, Num 18)
      else if js_lt percentage (Num 75) then (Num 52, Num 152, Num 219)
      else (Num 46, Num 204, Num 113))"

definition scoreLine :: "criterion list \<Rightarrow> number \<Rightarrow> string" where
  "scoreLine criteria totalScore =
     toFixed 1 totalScore @ '' / '' @ js_toString (maxTotalScore criteria)
       @ '' ('' @ js_toString (scorePercentage criteria totalScore) @ ''%)''"

text \<open>The level of a criterion, as the loop over the criteria computes it.\<close>

definition scoreLevel :: "number \<Rightarrow> string" where
  "scoreLevel score =
     (if js_lt score (Num 2) then ''Needs Improvement''
      else if js_lt score (Num 3) then ''Developing''
      else if js_lt score (Num 4) then ''Proficient''
      else if js_lt score (Num (9 / 2)) then ''Advanced''
      else ''Exemplary'')"

definition criterionTitle :: "colour \<Rightarrow> number \<Rightarrow> nat \<Rightarrow> criterion \<Rightarrow> autoTable_options" where
  "criterionTitle colr finalY index c =
     \<lparr>at_startY = finalY,
      at_head = [[show_nat (index + 1) @ ''. '' @ crit_name c,
                  js_toString (crit_score c) @ ''/5 - '' @ scoreLevel (crit_score c)]],
      at_body = [], at_theme = Some ''striped'', at_headFillColor = Some colr\<rparr>"

text \<open>The body of the loop over the criteria: the title row, the description and the
  feedback when there is one, ten units of space, and a new page once the cursor has passed
  270.\<close>

definition criterionSection :: "env \<Rightarrow> colour \<Rightarrow> nat \<Rightarrow> criterion \<Rightarrow> doc \<times> number \<Rightarrow> doc \<times> number" where
  "criterionSection e colr index c s =
     (let (d0, finalY0) = s;
          d1 = autoTable e (criterionTitle colr finalY0 index c) d0;
          finalY1 = finalY_or d1 finalY0;
          (d2, finalY2) =
            (if str_given (crit_description c)
             then (let d = autoTable e \<lparr>at_startY = finalY1, at_head = [],
                           at_body = [[the (crit_description c)]], at_theme = Some ''plain'',
                           at_headFillColor = None\<rparr> d1
                   in (d, finalY_or d finalY1))
             else (d1, finalY1));
          (d3, finalY3) =
            (if str_given (crit_feedback c) \<and> trim (the (crit_feedback c)) \<noteq> ''''
             then (let d = autoTable e \<lparr>at_startY = finalY2, at_head = [[''Feedback'']],
                           at_body = [[the (crit_feedback c)]], at_theme = Some ''plain'',
                           at_headFillColor = Some (Num 245, Num 245, Num 245)\<rparr> d2
                   in (d, finalY_or d finalY2))
             else (d2, finalY2));
          finalY4 = js_add finalY3 (Num 10)
      in if js_gt finalY4 (Num 270) then (addPage d3, Num 20) else (d3, finalY4))"

fun criteriaLoop :: "env \<Rightarrow> colour \<Rightarrow> nat \<Rightarrow> criterion list \<Rightarrow> doc \<times> number \<Rightarrow> doc \<times> number" where
  "criteriaLoop e colr index [] s = s"
| "criteriaLoop e colr index (c # cs) s =
     criteriaLoop e colr (Suc index) cs (criterionSection e colr index c s)"

text \<open>The footer of page \<open>i\<close> of \<open>n\<close>, and the loop that writes it on every page.\<close>

definition previewFooter :: "env \<Rightarrow> nat \<Rightarrow> nat \<Rightarrow> doc \<Rightarrow> doc" where
  "previewFooter e n i d =
     emit (Text (''Assessment Feedback Platform | Generated on ''
                  @ env_toLocaleDateString e (env_now e) @ '' | Page '' @ show_nat i @ '' of ''
                  @ show_nat n) (Num 105) (Num 285) (Some ''center''))
       (emit (SetTextColor (Num 150) (Num 150) (Num 150))
         (emit (SetFontSize (Num 9)) (emit (SetPage i) d)))"

definition previewFooters :: "env \<Rightarrow> doc \<Rightarrow> doc" where
  "previewFooters e d =
     (let pageCount = doc_pages d
      in foldl (\<lambda>acc i. previewFooter e pageCount i acc) d [1 ..< Suc pageCount])"

definition emits :: "pdf_op list \<Rightarrow> doc \<Rightarrow> doc" where
  "emits cs d = foldl (\<lambda>acc c. emit c acc) d cs"

text \<open>The generator, in the order of the source: the header band with the table of details;
  the score summary with the bar and the score line; the heading of the criteria; the loop
  over the criteria; the overall feedback; the footers.\<close>

definition previewHeader :: "env \<Rightarrow> AssessmentPdfOptions \<Rightarrow> doc" where
  "previewHeader e options =
     autoTable e \<lparr>at_startY = Num 32, at_head = [],
         at_body = [[''Student:'', opt_studentName options], [''Task:'', opt_taskName options],
                    [''Assessor:'', opt_assessorName options],
                    [''Date:'', env_toLocaleDateString e (opt_date options)]],
         at_theme = Some ''plain'', at_headFillColor = None\<rparr>
       (emits
         [SetFillColor (Num 41) (Num 128) (Num 185),
          Rect (Num 0) (Num 0) (Num 210) (Num 15) ''F'',
          SetTextColor (Num 255) (Num 255) (Num 255),
          SetFontSize (Num 18),
          Text ''Assessment Feedback Report'' (Num 105) (Num 10) (Some ''center''),
          SetTextColor (Num 0) (Num 0) (Num 0),
          SetFontSize (Num 14),
          Text ''Assessment Details'' (Num 14) (Num 25) None,
          SetDrawColor (Num 220) (Num 220) (Num 220),
          Line (Num 14) (Num 28) (Num 196) (Num 28)] new_jsPDF)"

definition progressWidth :: "number \<Rightarrow> number" where
  "progressWidth percentage = js_mul (Num 182) (js_div percentage (Num 100))"

definition previewScoreSummary :: "criterion list \<Rightarrow> number \<Rightarrow> number \<Rightarrow> doc \<Rightarrow> doc" where
  "previewScoreSummary criteria totalScore finalY d =
     (let percentage = scorePercentage criteria totalScore;
          (r, g, b) = fillColor percentage
      in emits
           [SetFontSize (Num 14),
            Text ''Score Summary'' (Num 14) (js_add finalY (Num 15)) None,
            SetDrawColor (Num 220) (Num 220) (Num 220),
            Line (Num 14) (js_add finalY (Num 18)) (Num 196) (js_add finalY (Num 18)),
            SetFillColor (Num 220) (Num 220) (Num 220),
            Rect (Num 14) (js_add finalY (Num 25)) (Num 182) (Num 8) ''F'',
            SetFillColor r g b,
            Rect (Num 14) (js_add finalY (Num 25)) (progressWidth percentage) (Num 8) ''F'',
            SetFontSize (Num 12),
            Text (scoreLine criteria totalScore) (Num 196) (js_add finalY (Num 40))
              (Some ''right'')] d)"

definition previewCriteriaHeading :: "number \<Rightarrow> doc \<Rightarrow> doc" where
  "previewCriteriaHeading finalY d =
     emits
       [SetFontSize (Num 14),
        Text ''Detailed Criterion Feedback'' (Num 14) finalY None,
        SetDrawColor (Num 220) (Num 220) (Num 220),
        Line (Num 14) (js_add finalY (Num 3)) (Num 196) (js_add finalY (Num 3))] d"

definition previewOverallFeedback :: "env \<Rightarrow> string \<Rightarrow> number \<Rightarrow> doc \<Rightarrow> doc" where
  "previewOverallFeedback e overallFeedback finalY d =
     (if overallFeedback \<noteq> '''' \<and> trim overallFeedback \<noteq> ''''
      then autoTable e \<lparr>at_startY = js_add finalY (Num 8), at_head = [],
             at_body = [[overallFeedback]], at_theme = Some ''plain'',
             at_headFillColor = None\<rparr>
           (emits
             [SetFontSize (Num 14),
              Text ''Overall Feedback'' (Num 14) finalY None,
              SetDrawColor (Num 220) (Num 220) (Num 220),
              Line (Num 14) (js_add finalY (Num 3)) (Num 196) (js_add finalY (Num 3))] d)
      else d)"

definition generatePDFPreview :: "env \<Rightarrow> AssessmentPdfOptions \<Rightarrow> doc" where
  "generatePDFPreview e options =
     (let criteria = opt_criteria options;
          overallFeedback = (case opt_overallFeedback options of None \<Rightarrow> '''' | Some s \<Rightarrow> s);
          totalScore = opt_totalScore options;
          d2 = previewHeader e options;
          finalY = finalY_or d2 (Num 60);
          d4 = previewScoreSummary criteria totalScore finalY d2;
          finalY5 = js_add finalY (Num 50);
          d5 = previewCriteriaHeading finalY5 d4;
          finalY6 = js_add finalY5 (Num 10);
          (d6, finalY7) =
            criteriaLoop e (fillColor (scorePercentage criteria totalScore)) 0 criteria
              (d5, finalY6);
          d7 = previewOverallFeedback e overallFeedback finalY7 d6
      in previewFooters e d7)"

subsection \<open>The aggregate report\<close>

text \<open>A row of \<open>assessmentData\<close>, with the fields the report reads: the names reached through
  the optional relations, the status as the string it is, the total and the date of the last
  update.\<close>

record ReportRow =
  rr_studentFullName :: "string option"
  rr_taskName :: "string option"
  rr_assessorFullName :: "string option"
  rr_status :: string
  rr_totalScore :: number
  rr_updatedAt :: "date option"

record PdfGenerationOptions =
  pg_title :: string
  pg_period :: "string option"
  pg_schoolFilter :: "string option"
  pg_classFilter :: "string option"
  pg_assessmentData :: "ReportRow list"

definition dflt :: "string option \<Rightarrow> string \<Rightarrow> string" where
  "dflt v d = (case v of None \<Rightarrow> d | Some s \<Rightarrow> s)"

definition completedRows :: "ReportRow list \<Rightarrow> ReportRow list" where
  "completedRows assessmentData = filter (\<lambda>a. rr_status a = ''completed'') assessmentData"

definition completedAssessments :: "ReportRow list \<Rightarrow> number" where
  "completedAssessments assessmentData = Num (of_nat (length (completedRows assessmentData)))"

definition totalAssessments :: "ReportRow list \<Rightarrow> number" where
  "totalAssessments assessmentData = Num (of_nat (length assessmentData))"

definition averageScore :: "ReportRow list \<Rightarrow> number" where
  "averageScore assessmentData =
     js_div (foldl (\<lambda>acc curr. js_add acc (rr_totalScore curr)) (Num 0)
               (completedRows assessmentData))
            (js_or (completedAssessments assessmentData) (Num 1))"

definition completionRate :: "ReportRow list \<Rightarrow> number" where
  "completionRate assessmentData =
     js_or (Math_round (js_mul (js_div (completedAssessments assessmentData)
                                       (totalAssessments assessmentData)) (Num 100)))
           (Num 0)"

definition summaryBody :: "ReportRow list \<Rightarrow> string list list" where
  "summaryBody assessmentData =
     [[''Total Assessments'', js_toString (totalAssessments assessmentData)],
      [''Completed Assessments'', js_toString (completedAssessments assessmentData)],
      [''Completion Rate'', js_toString (completionRate assessmentData) @ ''%''],
      [''Average Score'',
       (let s = toFixed 2 (averageScore assessmentData) in if s \<noteq> '''' then s else ''0'')
         @ ''/5'']]"

definition detailRow :: "env \<Rightarrow> ReportRow \<Rightarrow> string list" where
  "detailRow e assessment =
     [str_or (rr_studentFullName assessment) ''Unknown'',
      str_or (rr_taskName assessment) ''Unknown'',
      str_or (rr_assessorFullName assessment) ''Unknown'',
      (if rr_status assessment = ''completed'' then ''Completed'' else ''Draft''),
      (if rr_status assessment = ''completed''
       then toFixed 1 (rr_totalScore assessment) @ ''/5'' else ''N/A''),
      (case rr_updatedAt assessment of
         Some t \<Rightarrow> env_toLocaleDateString e t | None \<Rightarrow> ''N/A'')]"

definition reportFooters :: "env \<Rightarrow> doc \<Rightarrow> doc" where
  "reportFooters e d =
     (let pageCount = doc_pages d
      in foldl (\<lambda>acc i.
           emit (Text (''Page '' @ show_nat i @ '' of '' @ show_nat pageCount)
                   (js_div (env_pageWidth e) (Num 2))
                   (js_add (env_pageHeight e) (Num (- 10))) (Some ''center''))
             (emit (SetFontSize (Num 10)) (emit (SetPage i) acc)))
           d [1 ..< Suc pageCount])"

definition generatePdf :: "env \<Rightarrow> PdfGenerationOptions \<Rightarrow> string \<times> doc" where
  "generatePdf e options =
     (let title = pg_title options;
          period = dflt (pg_period options) ''all time'';
          schoolFilter = dflt (pg_schoolFilter options) ''all'';
          classFilter = dflt (pg_classFilter options) ''all'';
          assessmentData = pg_assessmentData options;
          d1 = emits
            [SetFontSize (Num 20),
             Text title (Num 14) (Num 22) None,
             SetFontSize (Num 10),
             Text (''Generated on: '' @ env_toLocaleDateString e (env_now e)) (Num 14) (Num 32)
               None,
             Text (''Period: '' @ period) (Num 14) (Num 38) None,
             Text (''School Filter: '' @ schoolFilter) (Num 14) (Num 44) None,
             Text (''Class Filter: '' @ classFilter) (Num 14) (Num 50) None,
             SetFontSize (Num 14),
             Text ''Assessment Summary'' (Num 14) (Num 60) None] new_jsPDF;
          d2 = autoTable e \<lparr>at_startY = Num 65, at_head = [[''Metric'', ''Value'']],
                 at_body = summaryBody assessmentData, at_theme = None,
                 at_headFillColor = None\<rparr> d1;
          lastTableY = finalY_or d2 (Num 100);
          d3 = emits
            [SetFontSize (Num 14),
             Text ''Assessment Details'' (Num 14) (js_add lastTableY (Num 15)) None] d2;
          d4 = autoTable e
                 \<lparr>at_startY =
                    js_or (case doc_lastFinalY d3 of None \<Rightarrow> NaN
                           | Some y \<Rightarrow> js_add y (Num 20)) (Num 120),
                  at_head = [[''Student'', ''Task'', ''Assessor'', ''Status'', ''Score'',
                              ''Last Updated'']],
                  at_body = map (detailRow e) assessmentData, at_theme = None,
                  at_headFillColor = None\<rparr> d3;
          d5 = reportFooters e d4;
          filename = replace_spaces ''_'' title @ ''_'' @ env_toISODate e (env_now e) @ ''.pdf''
      in (filename, emit (Save filename) d5))"

section \<open>HTTP routes (server/routes.ts)\<close>

text \<open>
  A handler is a function from the request and the store to the response and the store it
  leaves.  Of a request the model keeps what the handlers read: the user of the session
  (\<open>req.user\<close> when \<open>req.isAuthenticated()\<close> holds), the number that \<open>parseInt\<close> makes of the
  path parameter \<open>id\<close> (\<open>NaN\<close> when it is not a number), and the body as a JSON value.  The
  schemas that validate a body are built by the libraries zod and drizzle-zod, which are not
  part of the repository; a schema is therefore a parameter of a handler: a function that
  either rejects a body with the issues of the \<open>ZodError\<close> or returns the parsed row.
\<close>

record request =
  req_user :: "User option"
  req_id :: number
  req_body :: json

type_synonym 'p schema = "json \<Rightarrow> json + 'p"

datatype 'a response_body = Message string | Invalid string json | Row 'a

record 'a response =
  res_status :: nat
  res_body :: "'a response_body"


definition isAdmin :: "request \<Rightarrow> bool" where
  "isAdmin req = (case req_user req of Some u \<Rightarrow> user_role u = Admin | None \<Rightarrow> False)"

definition isAssessor :: "request \<Rightarrow> bool" where
  "isAssessor req =
     (case req_user req of
        Some u \<Rightarrow> user_role u = Assessor \<or> user_role u = Admin
      | None \<Rightarrow> False)"

definition getUser :: "number \<Rightarrow> store \<Rightarrow> User option" where
  "getUser id' st = map_get (users st) id'"

subsection \<open>The update routes\<close>

definition putSchool :: "PartialSchool schema \<Rightarrow> request \<Rightarrow> store \<Rightarrow> School response \<times> store" where
  "putSchool parse req st =
     (if \<not> isAdmin req then (\<lparr>res_status = 403, res_body = Message ''Forbidden''\<rparr>, st)
      else case parse (req_body req) of
        Inl errors \<Rightarrow>
          (\<lparr>res_status = 400, res_body = Invalid ''Invalid school data'' errors\<rparr>, st)
      | Inr schoolData \<Rightarrow>
          (case updateSchool (req_id req) schoolData st of
             (None, st1) \<Rightarrow>
               (\<lparr>res_status = 404, res_body = Message ''School not found''\<rparr>, st1)
           | (Some school, st1) \<Rightarrow> (\<lparr>res_status = 200, res_body = Row school\<rparr>, st1)))"

definition putClass :: "PartialClass schema \<Rightarrow> request \<Rightarrow> store \<Rightarrow> Class response \<times> store" where
  "putClass parse req st =
     (if \<not> isAdmin req then (\<lparr>res_status = 403, res_body = Message ''Forbidden''\<rparr>, st)
      else case parse (req_body req) of
        Inl errors \<Rightarrow>
          (\<lparr>res_status = 400, res_body = Invalid ''Invalid class data'' errors\<rparr>, st)
      | Inr classData \<Rightarrow>
          (case updateClass (req_id req) classData st of
             (None, st1) \<Rightarrow>
               (\<lparr>res_status = 404, res_body = Message ''Class not found''\<rparr>, st1)
           | (Some cls, st1) \<Rightarrow> (\<lparr>res_status = 200, res_body = Row cls\<rparr>, st1)))"

definition putStudent ::
    "PartialStudent schema \<Rightarrow> request \<Rightarrow> store \<Rightarrow> (Student \<times> User option) response \<times> store" where
  "putStudent parse req st =
     (if \<not> isAdmin req then (\<lparr>res_status = 403, res_body = Message ''Forbidden''\<rparr>, st)
      else case parse (req_body req) of
        Inl errors \<Rightarrow>
          (\<lparr>res_status = 400, res_body = Invalid ''Invalid student data'' errors\<rparr>, st)
      | Inr studentData \<Rightarrow>
          (case updateStudent (req_id req) studentData st of
             (None, st1) \<Rightarrow>
               (\<lparr>res_status = 404, res_body = Message ''Student not found''\<rparr>, st1)
           | (Some student, st1) \<Rightarrow>
               (\<lparr>res_status = 200,
                 res_body = Row (student, getUser (student_userId student) st1)\<rparr>, st1)))"

definition putAssessor ::
    "PartialAssessor schema \<Rightarrow> request \<Rightarrow> store \<Rightarrow> (Assessor \<times> User option) response \<times> store" where
  "putAssessor parse req st =
     (if \<not> isAdmin req then (\<lparr>res_status = 403, res_body = Message ''Forbidden''\<rparr>, st)
      else case parse (req_body req) of
        Inl errors \<Rightarrow>
          (\<lparr>res_status = 400, res_body = Invalid ''Invalid assessor data'' errors\<rparr>, st)
      | Inr assessorData \<Rightarrow>
          (case updateAssessor (req_id req) assessorData st of
             (None, st1) \<Rightarrow>
               (\<lparr>res_status = 404, res_body = Message ''Assessor not found''\<rparr>, st1)
           | (Some assessor, st1) \<Rightarrow>
               (\<lparr>res_status = 200,
                 res_body = Row (assessor, getUser (assessor_userId assessor) st1)\<rparr>, st1)))"

definition putRubricTemplate ::
    "PartialRubricTemplate schema \<Rightarrow> request \<Rightarrow> store \<Rightarrow> RubricTemplate response \<times> store" where
  "putRubricTemplate parse req st =
     (if \<not> isAdmin req then (\<lparr>res_status = 403, res_body = Message ''Forbidden''\<rparr>, st)
      else case parse (req_body req) of
        Inl errors \<Rightarrow>
          (\<lparr>res_status = 400, res_body = Invalid ''Invalid rubric template data'' errors\<rparr>, st)
      | Inr templateData \<Rightarrow>
          (case updateRubricTemplate (req_id req) templateData st of
             (None, st1) \<Rightarrow>
               (\<lparr>res_status = 404, res_body = Message ''Rubric template not found''\<rparr>, st1)
           | (Some template, st1) \<Rightarrow> (\<lparr>res_status = 200, res_body = Row template\<rparr>, st1)))"

definition putTask :: "PartialTask schema \<Rightarrow> request \<Rightarrow> store \<Rightarrow> Task response \<times> store" where
  "putTask parse req st =
     (if \<not> isAdmin req then (\<lparr>res_status = 403, res_body = Message ''Forbidden''\<rparr>, st)
      else case parse (req_body req) of
        Inl errors \<Rightarrow>
          (\<lparr>res_status = 400, res_body = Invalid ''Invalid task data'' errors\<rparr>, st)
      | Inr taskData \<Rightarrow>
          (case updateTask (req_id req) taskData st of
             (None, st1) \<Rightarrow>
               (\<lparr>res_status = 404, res_body = Message ''Task not found''\<rparr>, st1)
           | (Some task, st1) \<Rightarrow> (\<lparr>res_status = 200, res_body = Row task\<rparr>, st1)))"

text \<open>
  The mock \<open>generatePDF\<close> of the server: it fails when the assessment or one of its relations
  is missing, and otherwise writes a file named after the student and the task, white space
  removed, and returns its path.  Whether the write succeeds is up to the file system, a
  parameter \<open>written\<close> of the model; a failure of either kind is an exception in the source
  and \<open>None\<close> here.
\<close>

definition generatePDF :: "(string \<Rightarrow> bool) \<Rightarrow> number \<Rightarrow> store \<Rightarrow> string option" where
  "generatePDF written assessmentId' st =
     (case getAssessmentWithRelations assessmentId' st of
        None \<Rightarrow> None
      | Some assessment \<Rightarrow>
          (let filename = replace_spaces '''' (user_fullName (awr_studentUser assessment)) @ ''_''
                 @ replace_spaces '''' (task_name (awr_task assessment)) @ ''.pdf'';
               filePath = ''pdfs/'' @ filename
           in if written filePath then Some (''/'' @ filePath) else None))"

definition pdfPath_only :: "string \<Rightarrow> PartialAssessment" where
  "pdfPath_only pdfPath =
     \<lparr>pas_studentId = None, pas_assessorId = None, pas_taskId = None, pas_status = None,
      pas_scores = None, pas_totalScore = None, pas_feedback = None,
      pas_pdfPath = Some (Some pdfPath)\<rparr>"

text \<open>\<open>PUT /api/assessments/:id\<close>; \<open>now1\<close> and \<open>now2\<close> are the times of its two updates.\<close>

definition putAssessment ::
    "PartialAssessment schema \<Rightarrow> (string \<Rightarrow> bool) \<Rightarrow> date \<Rightarrow> date \<Rightarrow> request \<Rightarrow> store
      \<Rightarrow> AssessmentWithRelations option response \<times> store" where
  "putAssessment parse written now1 now2 req st =
     (if \<not> isAssessor req then (\<lparr>res_status = 403, res_body = Message ''Forbidden''\<rparr>, st)
      else case parse (req_body req) of
        Inl errors \<Rightarrow>
          (\<lparr>res_status = 400, res_body = Invalid ''Invalid assessment data'' errors\<rparr>, st)
      | Inr assessmentData \<Rightarrow>
          (case getAssessment (req_id req) st of
             None \<Rightarrow> (\<lparr>res_status = 404, res_body = Message ''Assessment not found''\<rparr>, st)
           | Some currentAssessment \<Rightarrow>
               (case updateAssessment now1 (req_id req) assessmentData st of
                  (None, st1) \<Rightarrow>
                    (\<lparr>res_status = 404, res_body = Message ''Assessment not found''\<rparr>, st1)
                | (Some assessment, st1) \<Rightarrow>
                    (if assessment_status assessment = Some Completed \<and>
                        (assessment_status currentAssessment \<noteq> Some Completed \<or>
                         \<not> str_given (assessment_pdfPath currentAssessment))
                     then (case generatePDF written (assessment_id assessment) st1 of
                             None \<Rightarrow>
                               (\<lparr>res_status = 500,
                                 res_body = Message ''Error updating assessment''\<rparr>, st1)
                           | Some pdfPath \<Rightarrow>
                               (let st2 = snd (updateAssessment now2 (assessment_id assessment)
                                               (pdfPath_only pdfPath) st1)
                                in (\<lparr>res_status = 200,
                                     res_body = Row (getAssessmentWithRelations
                                                       (assessment_id assessment) st2)\<rparr>, st2)))
                     else (\<lparr>res_status = 200,
                            res_body = Row (getAssessmentWithRelations
                                              (assessment_id assessment) st1)\<rparr>, st1)))))"

subsection \<open>The listing of assessments\<close>




section \<open>Reference definitions\<close>

text \<open>
  The level of a score as the specification words it: the first of the thresholds 2, 3, 4 and
  4.5 that the score is below names the level, and a score below none of them is exemplary.
\<close>

definition level_thresholds :: "(number \<times> string) list" where
  "level_thresholds =
     [(Num 2, ''Needs Improvement''), (Num 3, ''Developing''), (Num 4, ''Proficient''),
      (Num (9 / 2), ''Advanced'')]"

definition specified_level :: "number \<Rightarrow> string" where
  "specified_level s =
     (case find (\<lambda>(t, l). js_lt s t) level_thresholds of
        Some (t, l) \<Rightarrow> l
      | None \<Rightarrow> ''Exemplary'')"

text \<open>An environment for evaluating the generators on examples: a fixed date format, an A4
  page, and tables that end ten units below their start without breaking the page.\<close>

definition example_env :: env where
  "example_env =
     \<lparr>env_now = 0, env_toLocaleDateString = (\<lambda>t. ''1/1/1970''),
      env_toISODate = (\<lambda>t. ''1970-01-01''), env_pageWidth = Num 210, env_pageHeight = Num 297,
      env_tableLayout = (\<lambda>d opts. (Some (js_add (at_startY opts) (Num 10)), 0))\<rparr>"

text \<open>Two preview requests: one criterion with a total that is \<open>NaN\<close>, and no criterion with
  a total of \<open>0\<close> (what the assessment form passes when no criterion has been scored).\<close>

definition nan_total_request :: AssessmentPdfOptions where
  "nan_total_request =
     \<lparr>opt_studentName = ''Jordan Smith'', opt_assessorName = ''John Smith'',
      opt_taskName = ''Text Response Essay'',
      opt_criteria = [\<lparr>crit_name = ''Content Knowledge'', crit_description = None,
                       crit_score = Num 3, crit_feedback = None\<rparr>],
      opt_overallFeedback = None, opt_totalScore = NaN, opt_date = 0\<rparr>"

definition empty_criteria_request :: AssessmentPdfOptions where
  "empty_criteria_request =
     \<lparr>opt_studentName = ''Jordan Smith'', opt_assessorName = ''John Smith'',
      opt_taskName = ''Text Response Essay'', opt_criteria = [],
      opt_overallFeedback = None, opt_totalScore = Num 0, opt_date = 0\<rparr>"



text \<open>The rows with id 1 of the demo data, as the constructor at time 0 stores them, and a
  partial update for each kind of row.\<close>

definition demo_school :: School where
  "demo_school = \<lparr>school_id = Num 1, school_name = ''Westside High School'',
     school_address = Some ''123 West Street'', school_createdAt = 0\<rparr>"

definition demo_class :: Class where
  "demo_class = \<lparr>class_id = Num 1, class_name = ''English 10A'', class_schoolId = Num 1,
     class_createdAt = 0\<rparr>"

definition demo_student :: Student where
  "demo_student = \<lparr>student_id = Num 1, student_userId = Num 3, student_classId = Num 1,
     student_createdAt = 0\<rparr>"

definition demo_assessor :: Assessor where
  "demo_assessor = \<lparr>assessor_id = Num 1, assessor_userId = Num 2,
     assessor_schoolIds = [Num 1, Num 2], assessor_createdAt = 0\<rparr>"

definition demo_rubric :: RubricTemplate where
  "demo_rubric = the (map_get (rubricTemplates (newMemStorage 0)) (Num 1))"

definition demo_task :: Task where
  "demo_task = \<lparr>task_id = Num 1, task_name = ''Text Response Essay'',
     task_description = Some ''Write a response to the provided text'',
     task_rubricTemplateId = Num 1, task_createdAt = 0\<rparr>"

definition demo_assessment :: Assessment where
  "demo_assessment = the (map_get (assessments (newMemStorage 0)) (Num 1))"

definition rename_school :: PartialSchool where
  "rename_school = \<lparr>ps_name = Some ''Westside College'', ps_address = None\<rparr>"

definition rename_class :: PartialClass where
  "rename_class = \<lparr>pc_name = Some ''English 10B'', pc_schoolId = None\<rparr>"

definition move_student :: PartialStudent where
  "move_student = \<lparr>pst_userId = None, pst_classId = Some (Num 2)\<rparr>"

definition rescope_assessor :: PartialAssessor where
  "rescope_assessor = \<lparr>pa_userId = None, pa_schoolIds = Some [Num 2]\<rparr>"

definition rename_rubric :: PartialRubricTemplate where
  "rename_rubric = \<lparr>pr_name = Some ''Writing Rubric'', pr_description = Some None,
     pr_criteria = None\<rparr>"

definition rename_task :: PartialTask where
  "rename_task = \<lparr>pt_name = Some ''Essay'', pt_description = None,
     pt_rubricTemplateId = None\<rparr>"

definition complete_assessment :: PartialAssessment where
  "complete_assessment = \<lparr>pas_studentId = None, pas_assessorId = None, pas_taskId = None,
     pas_status = Some Draft, pas_scores = None, pas_totalScore = Some (Num 20),
     pas_feedback = None, pas_pdfPath = Some None\<rparr>"





text \<open>Requests and schemas for examples: the administrator of the demo data and a client
  that is not logged in, each sending a body whose name is a number to the id 9; a schema
  that rejects every body with the given issues and one that accepts every body as the given
  row; and four queries of the listing.\<close>

definition example_body :: json where
  "example_body = JObj [(''name'', JNum (Num 5))]"

definition example_issues :: json where
  "example_issues =
     JArr [JObj [(''code'', JStr ''invalid_type''), (''expected'', JStr ''string''),
                 (''received'', JStr ''number''), (''path'', JArr [JStr ''name'']),
                 (''message'', JStr ''Expected string, received number'')]]"

definition admin_request :: request where
  "admin_request =
     \<lparr>req_user = Some \<lparr>user_id = Num 1, user_username = ''admin'', user_password = ''admin123'',
                        user_email = ''admin@example.com'', user_fullName = ''Admin User'',
                        user_role = Admin, user_createdAt = 0\<rparr>,
      req_id = Num 9, req_body = example_body\<rparr>"

definition anonymous_request :: request where
  "anonymous_request = \<lparr>req_user = None, req_id = Num 9, req_body = example_body\<rparr>"

definition reject :: "json \<Rightarrow> 'p schema" where
  "reject issues body = Inl issues"

definition accept :: "'p \<Rightarrow> 'p schema" where
  "accept row body = Inr row"







section \<open>Verified properties\<close>

subsection \<open>Facts about maps\<close>

lemma map_get_set: "map_get (map_set k v m) k' = (if k' = k then Some v else map_get m k')"
  by (simp add: map_get_def map_set_def update_conv')

lemma map_get_delete: "map_get (map_delete k m) k' = (if k' = k then None else map_get m k')"
  by (simp add: map_get_def map_delete_def delete_conv')

lemma map_has_iff: "map_has m k \<longleftrightarrow> map_get m k \<noteq> None"
  by (simp add: map_has_def map_get_def)

subsection \<open>Cascading deletion\<close>

text \<open>
  Claim C5.  Deleting a student (an assessor) that is in the store returns \<open>true\<close>, and afterwards
  neither the student (assessor) nor the user it pointed to can be looked up.  Deleting an id
  that is not in the store returns \<open>false\<close> and leaves the map of users as it was.
\<close>

theorem delete_cascades_to_user:
  "(map_get (students st) sid = Some s \<longrightarrow>
      fst (deleteStudent sid st) \<and>
      map_get (students (snd (deleteStudent sid st))) sid = None \<and>
      map_get (users (snd (deleteStudent sid st))) (student_userId s) = None) \<and>
   (map_get (students st) sid = None \<longrightarrow>
      \<not> fst (deleteStudent sid st) \<and> users (snd (deleteStudent sid st)) = users st) \<and>
   (map_get (assessors st) aid = Some a \<longrightarrow>
      fst (deleteAssessor aid st) \<and>
      map_get (assessors (snd (deleteAssessor aid st))) aid = None \<and>
      map_get (users (snd (deleteAssessor aid st))) (assessor_userId a) = None) \<and>
   (map_get (assessors st) aid = None \<longrightarrow>
      \<not> fst (deleteAssessor aid st) \<and> users (snd (deleteAssessor aid st)) = users st)"
  by (simp add: deleteStudent_def deleteAssessor_def map_get_delete map_has_iff)

theorem delete_cascades_to_user_witness:
  "fst (deleteStudent (Num 1) (newMemStorage 0)) \<and>
   map_get (students (snd (deleteStudent (Num 1) (newMemStorage 0)))) (Num 1) = None \<and>
   map_get (users (snd (deleteStudent (Num 1) (newMemStorage 0)))) (Num 3) = None \<and>
   \<not> fst (deleteStudent (Num 7) (newMemStorage 0)) \<and>
   users (snd (deleteStudent (Num 7) (newMemStorage 0))) = users (newMemStorage 0) \<and>
   fst (deleteAssessor (Num 1) (newMemStorage 0)) \<and>
   map_get (assessors (snd (deleteAssessor (Num 1) (newMemStorage 0)))) (Num 1) = None \<and>
   map_get (users (snd (deleteAssessor (Num 1) (newMemStorage 0)))) (Num 2) = None \<and>
   \<not> fst (deleteAssessor (Num 7) (newMemStorage 0)) \<and>
   users (snd (deleteAssessor (Num 7) (newMemStorage 0))) = users (newMemStorage 0)"
proof -
  define s where "s = \<lparr>student_id = Num 1, student_userId = Num 3, student_classId = Num 1,
    student_createdAt = 0\<rparr>"
  define a where "a = \<lparr>assessor_id = Num 1, assessor_userId = Num 2,
    assessor_schoolIds = [Num 1, Num 2], assessor_createdAt = 0\<rparr>"
  have s: "map_get (students (newMemStorage 0)) (Num 1) = Some s"
    unfolding s_def by code_simp
  have a: "map_get (assessors (newMemStorage 0)) (Num 1) = Some a"
    unfolding a_def by code_simp
  have s7: "map_get (students (newMemStorage 0)) (Num 7) = None"
    by code_simp
  have a7: "map_get (assessors (newMemStorage 0)) (Num 7) = None"
    by code_simp
  have su: "student_userId s = Num 3" and au: "assessor_userId a = Num 2"
    by (simp_all add: s_def a_def)
  from delete_cascades_to_user [of "newMemStorage 0" "Num 1" s "Num 1" a]
    delete_cascades_to_user [of "newMemStorage 0" "Num 7" s "Num 7" a]
    s a s7 a7 su au
  show ?thesis by simp
qed

subsection \<open>Score levels\<close>

text \<open>
  Claim C3.  The level of a score is "Needs Improvement" below 2, "Developing" below 3,
  "Proficient" below 4, "Advanced" below 4.5 and "Exemplary" otherwise, for the shared utility
  \<open>formatScoreLevel\<close> and for the computation inside the preview generator alike, so the two
  agree on every number; on finite scores each level is exactly its interval, and the values
  next to each threshold fall on the stated side.
\<close>

theorem score_level_thresholds:
  "formatScoreLevel s = specified_level s \<and> scoreLevel s = specified_level s \<and>
   (formatScoreLevel (Num x) = ''Needs Improvement'' \<longleftrightarrow> x < 2) \<and>
   (formatScoreLevel (Num x) = ''Developing'' \<longleftrightarrow> 2 \<le> x \<and> x < 3) \<and>
   (formatScoreLevel (Num x) = ''Proficient'' \<longleftrightarrow> 3 \<le> x \<and> x < 4) \<and>
   (formatScoreLevel (Num x) = ''Advanced'' \<longleftrightarrow> 4 \<le> x \<and> x < 9 / 2) \<and>
   (formatScoreLevel (Num x) = ''Exemplary'' \<longleftrightarrow> 9 / 2 \<le> x) \<and>
   scoreLevel (Num (199 / 100)) = ''Needs Improvement'' \<and> scoreLevel (Num 2) = ''Developing'' \<and>
   scoreLevel (Num (299 / 100)) = ''Developing'' \<and> scoreLevel (Num 3) = ''Proficient'' \<and>
   scoreLevel (Num (399 / 100)) = ''Proficient'' \<and> scoreLevel (Num 4) = ''Advanced'' \<and>
   scoreLevel (Num (449 / 100)) = ''Advanced'' \<and> scoreLevel (Num (9 / 2)) = ''Exemplary''"
proof -
  have "formatScoreLevel s = specified_level s" and "scoreLevel s = specified_level s"
    by (simp_all add: formatScoreLevel_def scoreLevel_def specified_level_def
        level_thresholds_def)
  moreover have
    "(formatScoreLevel (Num x) = ''Needs Improvement'' \<longleftrightarrow> x < 2) \<and>
     (formatScoreLevel (Num x) = ''Developing'' \<longleftrightarrow> 2 \<le> x \<and> x < 3) \<and>
     (formatScoreLevel (Num x) = ''Proficient'' \<longleftrightarrow> 3 \<le> x \<and> x < 4) \<and>
     (formatScoreLevel (Num x) = ''Advanced'' \<longleftrightarrow> 4 \<le> x \<and> x < 9 / 2) \<and>
     (formatScoreLevel (Num x) = ''Exemplary'' \<longleftrightarrow> 9 / 2 \<le> x)"
    by (auto simp add: formatScoreLevel_def)
  moreover have
    "scoreLevel (Num (199 / 100)) = ''Needs Improvement'' \<and> scoreLevel (Num 2) = ''Developing'' \<and>
     scoreLevel (Num (299 / 100)) = ''Developing'' \<and> scoreLevel (Num 3) = ''Proficient'' \<and>
     scoreLevel (Num (399 / 100)) = ''Proficient'' \<and> scoreLevel (Num 4) = ''Advanced'' \<and>
     scoreLevel (Num (449 / 100)) = ''Advanced'' \<and> scoreLevel (Num (9 / 2)) = ''Exemplary''"
    by (simp add: scoreLevel_def)
  ultimately show ?thesis by blast
qed

theorem score_level_thresholds_witness:
  "formatScoreLevel (Num (7 / 2)) = ''Proficient'' \<and> scoreLevel (Num (7 / 2)) = ''Proficient'' \<and>
   specified_level (Num (7 / 2)) = ''Proficient''"
proof -
  have "specified_level (Num (7 / 2)) = ''Proficient''"
    by (simp add: specified_level_def level_thresholds_def)
  with score_level_thresholds [of "Num (7 / 2)" "7 / 2"] show ?thesis by simp
qed

subsection \<open>The score percentage\<close>

text \<open>
  Claim C1, at the input the claim singles out.  With a total of 0 out of a maximum of 0 the
  percentage is \<open>NaN\<close>, not 0: \<open>calculateScorePercentage\<close> divides without a guard, and so does
  the preview generator, whose maximum is 0 when there is no criterion.  Nothing is raised.
  The aggregate report does guard the same quotient: its completion rate of no assessments
  is 0.
\<close>

theorem percentage_of_zero_by_zero:
  "calculateScorePercentage (Num 0) (Num 0) = NaN \<and>
   scorePercentage [] (Num 0) = NaN \<and>
   completionRate [] = Num 0"
  by (simp add: calculateScorePercentage_def scorePercentage_def maxTotalScore_def
      validTotalScore_def completionRate_def completedAssessments_def totalAssessments_def
      completedRows_def js_or_def truthy_def)

subsection \<open>What the preview generator draws\<close>

lemma doc_ops_emit: "doc_ops (emit c d) = doc_ops d @ [c]"
  by (simp add: emit_def)

lemma doc_ops_emits: "doc_ops (emits cs d) = doc_ops d @ cs"
  unfolding emits_def by (induction cs arbitrary: d) (simp_all add: doc_ops_emit)

lemma doc_ops_autoTable: "doc_ops (autoTable e opts d) = doc_ops d @ [AutoTable opts]"
  by (simp add: autoTable_def doc_ops_emit split: prod.splits)

lemma doc_ops_addPage: "doc_ops (addPage d) = doc_ops d @ [AddPage]"
  by (simp add: addPage_def doc_ops_emit)

text \<open>No stage removes a call that an earlier stage has made.\<close>

lemma criterionSection_keeps:
  "set (doc_ops (fst s)) \<subseteq> set (doc_ops (fst (criterionSection e colr i c s)))"
  by (cases s)
    (auto simp: criterionSection_def Let_def doc_ops_autoTable doc_ops_addPage
      split: prod.splits if_splits)

lemma criteriaLoop_keeps:
  "set (doc_ops (fst s)) \<subseteq> set (doc_ops (fst (criteriaLoop e colr i cs s)))"
proof (induction cs arbitrary: i s)
  case Nil
  show ?case by simp
next
  case (Cons c cs)
  have "set (doc_ops (fst s)) \<subseteq> set (doc_ops (fst (criterionSection e colr i c s)))"
    by (rule criterionSection_keeps)
  also have "\<dots> \<subseteq> set (doc_ops (fst (criteriaLoop e colr (Suc i) cs
      (criterionSection e colr i c s))))"
    by (rule Cons.IH)
  finally show ?case by simp
qed

lemma footer_loop_keeps:
  "set (doc_ops d) \<subseteq> set (doc_ops (foldl (\<lambda>acc i. previewFooter e n i acc) d js))"
proof (induction js arbitrary: d)
  case Nil
  show ?case by simp
next
  case (Cons j js)
  have "set (doc_ops d) \<subseteq> set (doc_ops (previewFooter e n j d))"
    by (auto simp: previewFooter_def doc_ops_emit)
  with Cons.IH [of "previewFooter e n j d"] show ?case by auto
qed

lemma previewFooters_keeps: "set (doc_ops d) \<subseteq> set (doc_ops (previewFooters e d))"
  by (simp add: previewFooters_def Let_def footer_loop_keeps)

lemma previewOverallFeedback_keeps:
  "set (doc_ops d) \<subseteq> set (doc_ops (previewOverallFeedback e fb y d))"
  by (auto simp: previewOverallFeedback_def doc_ops_autoTable doc_ops_emits)

lemma previewCriteriaHeading_keeps:
  "set (doc_ops d) \<subseteq> set (doc_ops (previewCriteriaHeading y d))"
  by (auto simp: previewCriteriaHeading_def doc_ops_emits)

lemma score_summary_kept:
  "set (doc_ops (previewScoreSummary (opt_criteria options) (opt_totalScore options)
          (finalY_or (previewHeader e options) (Num 60)) (previewHeader e options)))
   \<subseteq> set (doc_ops (generatePDFPreview e options))"
proof -
  let ?d4 = "previewScoreSummary (opt_criteria options) (opt_totalScore options)
          (finalY_or (previewHeader e options) (Num 60)) (previewHeader e options)"
  let ?y5 = "js_add (finalY_or (previewHeader e options) (Num 60)) (Num 50)"
  let ?L = "criteriaLoop e
     (fillColor (scorePercentage (opt_criteria options) (opt_totalScore options)))
     0 (opt_criteria options) (previewCriteriaHeading ?y5 ?d4, js_add ?y5 (Num 10))"
  let ?fb = "case opt_overallFeedback options of None \<Rightarrow> '''' | Some s \<Rightarrow> s"
  have "set (doc_ops ?d4) \<subseteq> set (doc_ops (previewCriteriaHeading ?y5 ?d4))"
    by (rule previewCriteriaHeading_keeps)
  also have "\<dots> \<subseteq> set (doc_ops (fst ?L))"
    using criteriaLoop_keeps [of "(previewCriteriaHeading ?y5 ?d4, js_add ?y5 (Num 10))"]
    by simp
  also have "\<dots> \<subseteq> set (doc_ops (previewOverallFeedback e ?fb (snd ?L) (fst ?L)))"
    by (rule previewOverallFeedback_keeps)
  also have "\<dots> \<subseteq> set (doc_ops (previewFooters e
      (previewOverallFeedback e ?fb (snd ?L) (fst ?L))))"
    by (rule previewFooters_keeps)
  also have "previewFooters e (previewOverallFeedback e ?fb (snd ?L) (fst ?L))
    = generatePDFPreview e options"
    by (simp add: generatePDFPreview_def Let_def split_beta)
  finally show ?thesis .
qed

lemma score_line_drawn:
  "Text (scoreLine (opt_criteria options) (opt_totalScore options)) (Num 196)
     (js_add (finalY_or (previewHeader e options) (Num 60)) (Num 40)) (Some ''right'')
   \<in> set (doc_ops (generatePDFPreview e options))"
  by (rule subsetD [OF score_summary_kept])
    (simp add: previewScoreSummary_def Let_def split_beta doc_ops_emits)

lemma progress_bar_drawn:
  "Rect (Num 14) (js_add (finalY_or (previewHeader e options) (Num 60)) (Num 25))
     (progressWidth (scorePercentage (opt_criteria options) (opt_totalScore options)))
     (Num 8) ''F''
   \<in> set (doc_ops (generatePDFPreview e options))"
  by (rule subsetD [OF score_summary_kept])
    (simp add: previewScoreSummary_def Let_def split_beta doc_ops_emits)

text \<open>
  Claim C2, where the code departs from it.  A total that is \<open>NaN\<close> counts as 0 in the
  percentage, and nothing is raised; but the score line prints the total itself, not the
  guarded value, so the text drawn at the right of the score bar begins with "NaN".
\<close>

theorem NaN_total_is_printed:
  "opt_totalScore options = NaN \<Longrightarrow>
     validTotalScore (opt_totalScore options) = Num 0 \<and>
     take 3 (scoreLine (opt_criteria options) (opt_totalScore options)) = ''NaN'' \<and>
     Text (scoreLine (opt_criteria options) (opt_totalScore options)) (Num 196)
       (js_add (finalY_or (previewHeader e options) (Num 60)) (Num 40)) (Some ''right'')
     \<in> set (doc_ops (generatePDFPreview e options))"
  using score_line_drawn [of options e] by (simp add: validTotalScore_def scoreLine_def)

theorem NaN_total_is_printed_witness:
  "opt_totalScore nan_total_request = NaN \<and>
   Text ''NaN / 5 (0%)'' (Num 196) (Num 82) (Some ''right'')
     \<in> set (doc_ops (generatePDFPreview example_env nan_total_request))"
proof -
  have h: "opt_totalScore nan_total_request = NaN"
    by (simp add: nan_total_request_def)
  have l: "scoreLine (opt_criteria nan_total_request) (opt_totalScore nan_total_request)
      = ''NaN / 5 (0%)''"
    by code_simp
  have y: "js_add (finalY_or (previewHeader example_env nan_total_request) (Num 60)) (Num 40)
      = Num 82"
    by code_simp
  from NaN_total_is_printed [OF h, of example_env] l y h show ?thesis by simp
qed

text \<open>
  Claim C8, where the code departs from it.  With no criterion the maximum total is 0, so
  the percentage is a quotient by zero: it is \<open>NaN\<close> or an infinity whatever the total is, and
  so is the width of the score bar that the generator asks the library to draw.
\<close>

theorem empty_criteria_bar_not_finite:
  "opt_criteria options = [] \<Longrightarrow>
     \<not> isFinite (scorePercentage (opt_criteria options) (opt_totalScore options)) \<and>
     \<not> isFinite (progressWidth (scorePercentage (opt_criteria options) (opt_totalScore options))) \<and>
     Rect (Num 14) (js_add (finalY_or (previewHeader e options) (Num 60)) (Num 25))
       (progressWidth (scorePercentage (opt_criteria options) (opt_totalScore options)))
       (Num 8) ''F''
     \<in> set (doc_ops (generatePDFPreview e options))"
proof -
  assume empty: "opt_criteria options = []"
  have "\<not> isFinite (scorePercentage [] t)" and "\<not> isFinite (progressWidth (scorePercentage [] t))"
    for t
    by (cases t; simp add: progressWidth_def scorePercentage_def maxTotalScore_def
        validTotalScore_def)+
  with empty progress_bar_drawn [of e options] show ?thesis by simp
qed

theorem empty_criteria_bar_not_finite_witness:
  "opt_criteria empty_criteria_request = [] \<and>
   scorePercentage [] (Num 0) = NaN \<and>
   Rect (Num 14) (Num 67) NaN (Num 8) ''F''
     \<in> set (doc_ops (generatePDFPreview example_env empty_criteria_request)) \<and>
   Text ''0.0 / 0 (NaN%)'' (Num 196) (Num 82) (Some ''right'')
     \<in> set (doc_ops (generatePDFPreview example_env empty_criteria_request))"
proof -
  have h: "opt_criteria empty_criteria_request = []"
    by (simp add: empty_criteria_request_def)
  have t: "opt_totalScore empty_criteria_request = Num 0"
    by (simp add: empty_criteria_request_def)
  have p: "scorePercentage [] (Num 0) = NaN"
    by (simp add: scorePercentage_def maxTotalScore_def validTotalScore_def)
  have w: "progressWidth NaN = NaN"
    by (simp add: progressWidth_def)
  have y: "js_add (finalY_or (previewHeader example_env empty_criteria_request) (Num 60)) (Num 25)
      = Num 67"
    by code_simp
  have l: "Text ''0.0 / 0 (NaN%)'' (Num 196) (Num 82) (Some ''right'')
     \<in> set (doc_ops (generatePDFPreview example_env empty_criteria_request))"
    by code_simp
  from empty_criteria_bar_not_finite [OF h, of example_env] h t p w y l show ?thesis by simp
qed

subsection \<open>The aggregates of the report\<close>












subsection \<open>Updates\<close>

lemma updateSchool_present:
  "map_get (schools st) i = Some sch \<Longrightarrow>
     (\<exists>r. updateSchool i ps st = (Some r, st\<lparr>schools := map_set i r (schools st)\<rparr>) \<and>
        school_id r = school_id sch \<and>
        school_createdAt r = school_createdAt sch \<and>
        school_name r = (case ps_name ps of None \<Rightarrow> school_name sch | Some v \<Rightarrow> v) \<and>
        school_address r = (case ps_address ps of None \<Rightarrow> school_address sch | Some v \<Rightarrow> v))"
  by (simp add: updateSchool_def Let_def spread_def)

lemma updateSchool_absent:
  "map_get (schools st) i = None \<Longrightarrow> updateSchool i ps st = (None, st)"
  by (simp add: updateSchool_def)

lemma updateClass_present:
  "map_get (classes st) i = Some cls \<Longrightarrow>
     (\<exists>r. updateClass i pc st = (Some r, st\<lparr>classes := map_set i r (classes st)\<rparr>) \<and>
        class_id r = class_id cls \<and>
        class_createdAt r = class_createdAt cls \<and>
        class_name r = (case pc_name pc of None \<Rightarrow> class_name cls | Some v \<Rightarrow> v) \<and>
        class_schoolId r = (case pc_schoolId pc of None \<Rightarrow> class_schoolId cls | Some v \<Rightarrow> v))"
  by (simp add: updateClass_def Let_def spread_def)

lemma updateClass_absent:
  "map_get (classes st) i = None \<Longrightarrow> updateClass i pc st = (None, st)"
  by (simp add: updateClass_def)

lemma updateStudent_present:
  "map_get (students st) i = Some stu \<Longrightarrow>
     (\<exists>r. updateStudent i pst st = (Some r, st\<lparr>students := map_set i r (students st)\<rparr>) \<and>
        student_id r = student_id stu \<and>
        student_createdAt r = student_createdAt stu \<and>
        student_userId r = (case pst_userId pst of None \<Rightarrow> student_userId stu | Some v \<Rightarrow> v) \<and>
        student_classId r = (case pst_classId pst of None \<Rightarrow> student_classId stu | Some v \<Rightarrow> v))"
  by (simp add: updateStudent_def Let_def spread_def)

lemma updateStudent_absent:
  "map_get (students st) i = None \<Longrightarrow> updateStudent i pst st = (None, st)"
  by (simp add: updateStudent_def)

lemma updateAssessor_present:
  "map_get (assessors st) i = Some asr \<Longrightarrow>
     (\<exists>r. updateAssessor i pa st = (Some r, st\<lparr>assessors := map_set i r (assessors st)\<rparr>) \<and>
        assessor_id r = assessor_id asr \<and>
        assessor_createdAt r = assessor_createdAt asr \<and>
        assessor_userId r = (case pa_userId pa of None \<Rightarrow> assessor_userId asr | Some v \<Rightarrow> v) \<and>
        assessor_schoolIds r = (case pa_schoolIds pa of None \<Rightarrow> assessor_schoolIds asr | Some v \<Rightarrow> v))"
  by (simp add: updateAssessor_def Let_def spread_def)

lemma updateAssessor_absent:
  "map_get (assessors st) i = None \<Longrightarrow> updateAssessor i pa st = (None, st)"
  by (simp add: updateAssessor_def)

lemma updateRubricTemplate_present:
  "map_get (rubricTemplates st) i = Some rub \<Longrightarrow>
     (\<exists>r. updateRubricTemplate i pr st = (Some r, st\<lparr>rubricTemplates := map_set i r (rubricTemplates st)\<rparr>) \<and>
        rubric_id r = rubric_id rub \<and>
        rubric_createdAt r = rubric_createdAt rub \<and>
        rubric_name r = (case pr_name pr of None \<Rightarrow> rubric_name rub | Some v \<Rightarrow> v) \<and>
        rubric_description r = (case pr_description pr of None \<Rightarrow> rubric_description rub | Some v \<Rightarrow> v) \<and>
        rubric_criteria r = (case pr_criteria pr of None \<Rightarrow> rubric_criteria rub | Some v \<Rightarrow> v))"
  by (simp add: updateRubricTemplate_def Let_def spread_def)

lemma updateRubricTemplate_absent:
  "map_get (rubricTemplates st) i = None \<Longrightarrow> updateRubricTemplate i pr st = (None, st)"
  by (simp add: updateRubricTemplate_def)

lemma updateTask_present:
  "map_get (tasks st) i = Some tsk \<Longrightarrow>
     (\<exists>r. updateTask i pt st = (Some r, st\<lparr>tasks := map_set i r (tasks st)\<rparr>) \<and>
        task_id r = task_id tsk \<and>
        task_createdAt r = task_createdAt tsk \<and>
        task_name r = (case pt_name pt of None \<Rightarrow> task_name tsk | Some v \<Rightarrow> v) \<and>
        task_description r = (case pt_description pt of None \<Rightarrow> task_description tsk | Some v \<Rightarrow> v) \<and>
        task_rubricTemplateId r = (case pt_rubricTemplateId pt of None \<Rightarrow> task_rubricTemplateId tsk | Some v \<Rightarrow> v))"
  by (simp add: updateTask_def Let_def spread_def)

lemma updateTask_absent:
  "map_get (tasks st) i = None \<Longrightarrow> updateTask i pt st = (None, st)"
  by (simp add: updateTask_def)

lemma updateAssessment_present:
  "map_get (assessments st) i = Some asm \<Longrightarrow>
     (\<exists>r. updateAssessment now i pas st = (Some r, st\<lparr>assessments := map_set i r (assessments st)\<rparr>) \<and>
        assessment_id r = assessment_id asm \<and>
        assessment_createdAt r = assessment_createdAt asm \<and>
        assessment_studentId r = (case pas_studentId pas of None \<Rightarrow> assessment_studentId asm | Some v \<Rightarrow> v) \<and>
        assessment_assessorId r = (case pas_assessorId pas of None \<Rightarrow> assessment_assessorId asm | Some v \<Rightarrow> v) \<and>
        assessment_taskId r = (case pas_taskId pas of None \<Rightarrow> assessment_taskId asm | Some v \<Rightarrow> v) \<and>
        assessment_status r = (case pas_status pas of None \<Rightarrow> assessment_status asm | Some v \<Rightarrow> Some v) \<and>
        assessment_scores r = (case pas_scores pas of None \<Rightarrow> assessment_scores asm | Some v \<Rightarrow> v) \<and>
        assessment_totalScore r = (case pas_totalScore pas of None \<Rightarrow> assessment_totalScore asm | Some v \<Rightarrow> v) \<and>
        assessment_feedback r = (case pas_feedback pas of None \<Rightarrow> assessment_feedback asm | Some v \<Rightarrow> v) \<and>
        assessment_pdfPath r = (case pas_pdfPath pas of None \<Rightarrow> assessment_pdfPath asm | Some v \<Rightarrow> v) \<and>
        assessment_updatedAt r = now)"
  by (simp add: updateAssessment_def Let_def spread_def)

lemma updateAssessment_absent:
  "map_get (assessments st) i = None \<Longrightarrow> updateAssessment now i pas st = (None, st)"
  by (simp add: updateAssessment_def)

text \<open>
  Claim C10.  Each of the seven update operations, applied to an id that is in the store,
  returns the updated row and stores it under the same id; the row keeps its id and its
  creation time, and every other field is the value the partial update supplies or, when the
  partial update does not supply one, the value it had (for an assessment the time of the last
  update becomes the current time).  Applied to an id that is not in the store, the operation
  returns nothing and the store is the same as before.
\<close>

theorem update_frame:
  "(map_get (schools st) i = Some sch \<longrightarrow>
     (\<exists>r. updateSchool i ps st = (Some r, st\<lparr>schools := map_set i r (schools st)\<rparr>) \<and>
        school_id r = school_id sch \<and>
        school_createdAt r = school_createdAt sch \<and>
        school_name r = (case ps_name ps of None \<Rightarrow> school_name sch | Some v \<Rightarrow> v) \<and>
        school_address r = (case ps_address ps of None \<Rightarrow> school_address sch | Some v \<Rightarrow> v))) \<and>
   (map_get (schools st) i = None \<longrightarrow> updateSchool i ps st = (None, st)) \<and>
   (map_get (classes st) i = Some cls \<longrightarrow>
     (\<exists>r. updateClass i pc st = (Some r, st\<lparr>classes := map_set i r (classes st)\<rparr>) \<and>
        class_id r = class_id cls \<and>
        class_createdAt r = class_createdAt cls \<and>
        class_name r = (case pc_name pc of None \<Rightarrow> class_name cls | Some v \<Rightarrow> v) \<and>
        class_schoolId r = (case pc_schoolId pc of None \<Rightarrow> class_schoolId cls | Some v \<Rightarrow> v))) \<and>
   (map_get (classes st) i = None \<longrightarrow> updateClass i pc st = (None, st)) \<and>
   (map_get (students st) i = Some stu \<longrightarrow>
     (\<exists>r. updateStudent i pst st = (Some r, st\<lparr>students := map_set i r (students st)\<rparr>) \<and>
        student_id r = student_id stu \<and>
        student_createdAt r = student_createdAt stu \<and>
        student_userId r = (case pst_userId pst of None \<Rightarrow> student_userId stu | Some v \<Rightarrow> v) \<and>
        student_classId r = (case pst_classId pst of None \<Rightarrow> student_classId stu | Some v \<Rightarrow> v))) \<and>
   (map_get (students st) i = None \<longrightarrow> updateStudent i pst st = (None, st)) \<and>
   (map_get (assessors st) i = Some asr \<longrightarrow>
     (\<exists>r. updateAssessor i pa st = (Some r, st\<lparr>assessors := map_set i r (assessors st)\<rparr>) \<and>
        assessor_id r = assessor_id asr \<and>
        assessor_createdAt r = assessor_createdAt asr \<and>
        assessor_userId r = (case pa_userId pa of None \<Rightarrow> assessor_userId asr | Some v \<Rightarrow> v) \<and>
        assessor_schoolIds r = (case pa_schoolIds pa of None \<Rightarrow> assessor_schoolIds asr | Some v \<Rightarrow> v))) \<and>
   (map_get (assessors st) i = None \<longrightarrow> updateAssessor i pa st = (None, st)) \<and>
   (map_get (rubricTemplates st) i = Some rub \<longrightarrow>
     (\<exists>r. updateRubricTemplate i pr st = (Some r, st\<lparr>rubricTemplates := map_set i r (rubricTemplates st)\<rparr>) \<and>
        rubric_id r = rubric_id rub \<and>
        rubric_createdAt r = rubric_createdAt rub \<and>
        rubric_name r = (case pr_name pr of None \<Rightarrow> rubric_name rub | Some v \<Rightarrow> v) \<and>
        rubric_description r = (case pr_description pr of None \<Rightarrow> rubric_description rub | Some v \<Rightarrow> v) \<and>
        rubric_criteria r = (case pr_criteria pr of None \<Rightarrow> rubric_criteria rub | Some v \<Rightarrow> v))) \<and>
   (map_get (rubricTemplates st) i = None \<longrightarrow> updateRubricTemplate i pr st = (None, st)) \<and>
   (map_get (tasks st) i = Some tsk \<longrightarrow>
     (\<exists>r. updateTask i pt st = (Some r, st\<lparr>tasks := map_set i r (tasks st)\<rparr>) \<and>
        task_id r = task_id tsk \<and>
        task_createdAt r = task_createdAt tsk \<and>
        task_name r = (case pt_name pt of None \<Rightarrow> task_name tsk | Some v \<Rightarrow> v) \<and>
        task_description r = (case pt_description pt of None \<Rightarrow> task_description tsk | Some v \<Rightarrow> v) \<and>
        task_rubricTemplateId r = (case pt_rubricTemplateId pt of None \<Rightarrow> task_rubricTemplateId tsk | Some v \<Rightarrow> v))) \<and>
   (map_get (tasks st) i = None \<longrightarrow> updateTask i pt st = (None, st)) \<and>
   (map_get (assessments st) i = Some asm \<longrightarrow>
     (\<exists>r. updateAssessment now i pas st = (Some r, st\<lparr>assessments := map_set i r (assessments st)\<rparr>) \<and>
        assessment_id r = assessment_id asm \<and>
        assessment_createdAt r = assessment_createdAt asm \<and>
        assessment_studentId r = (case pas_studentId pas of None \<Rightarrow> assessment_studentId asm | Some v \<Rightarrow> v) \<and>
        assessment_assessorId r = (case pas_assessorId pas of None \<Rightarrow> assessment_assessorId asm | Some v \<Rightarrow> v) \<and>
        assessment_taskId r = (case pas_taskId pas of None \<Rightarrow> assessment_taskId asm | Some v \<Rightarrow> v) \<and>
        assessment_status r = (case pas_status pas of None \<Rightarrow> assessment_status asm | Some v \<Rightarrow> Some v) \<and>
        assessment_scores r = (case pas_scores pas of None \<Rightarrow> assessment_scores asm | Some v \<Rightarrow> v) \<and>
        assessment_totalScore r = (case pas_totalScore pas of None \<Rightarrow> assessment_totalScore asm | Some v \<Rightarrow> v) \<and>
        assessment_feedback r = (case pas_feedback pas of None \<Rightarrow> assessment_feedback asm | Some v \<Rightarrow> v) \<and>
        assessment_pdfPath r = (case pas_pdfPath pas of None \<Rightarrow> assessment_pdfPath asm | Some v \<Rightarrow> v) \<and>
        assessment_updatedAt r = now)) \<and>
   (map_get (assessments st) i = None \<longrightarrow> updateAssessment now i pas st = (None, st))"
  apply (intro conjI impI)
  subgoal by (rule updateSchool_present)
  subgoal by (rule updateSchool_absent)
  subgoal by (rule updateClass_present)
  subgoal by (rule updateClass_absent)
  subgoal by (rule updateStudent_present)
  subgoal by (rule updateStudent_absent)
  subgoal by (rule updateAssessor_present)
  subgoal by (rule updateAssessor_absent)
  subgoal by (rule updateRubricTemplate_present)
  subgoal by (rule updateRubricTemplate_absent)
  subgoal by (rule updateTask_present)
  subgoal by (rule updateTask_absent)
  subgoal by (rule updateAssessment_present)
  subgoal by (rule updateAssessment_absent)
  done

theorem update_frame_witness:
  "map_get (schools (newMemStorage 0)) (Num 1) = Some demo_school \<and>
   (\<exists>r. updateSchool (Num 1) rename_school (newMemStorage 0) = (Some r, (newMemStorage 0)\<lparr>schools := map_set (Num 1) r (schools (newMemStorage 0))\<rparr>) \<and>
        school_id r = school_id demo_school \<and>
        school_createdAt r = school_createdAt demo_school \<and>
        school_name r = (case ps_name rename_school of None \<Rightarrow> school_name demo_school | Some v \<Rightarrow> v) \<and>
        school_address r = (case ps_address rename_school of None \<Rightarrow> school_address demo_school | Some v \<Rightarrow> v)) \<and>
   map_get (schools (newMemStorage 0)) (Num 9) = None \<and>
   updateSchool (Num 9) rename_school (newMemStorage 0) = (None, (newMemStorage 0)) \<and>
   map_get (classes (newMemStorage 0)) (Num 1) = Some demo_class \<and>
   (\<exists>r. updateClass (Num 1) rename_class (newMemStorage 0) = (Some r, (newMemStorage 0)\<lparr>classes := map_set (Num 1) r (classes (newMemStorage 0))\<rparr>) \<and>
        class_id r = class_id demo_class \<and>
        class_createdAt r = class_createdAt demo_class \<and>
        class_name r = (case pc_name rename_class of None \<Rightarrow> class_name demo_class | Some v \<Rightarrow> v) \<and>
        class_schoolId r = (case pc_schoolId rename_class of None \<Rightarrow> class_schoolId demo_class | Some v \<Rightarrow> v)) \<and>
   map_get (classes (newMemStorage 0)) (Num 9) = None \<and>
   updateClass (Num 9) rename_class (newMemStorage 0) = (None, (newMemStorage 0)) \<and>
   map_get (students (newMemStorage 0)) (Num 1) = Some demo_student \<and>
   (\<exists>r. updateStudent (Num 1) move_student (newMemStorage 0) = (Some r, (newMemStorage 0)\<lparr>students := map_set (Num 1) r (students (newMemStorage 0))\<rparr>) \<and>
        student_id r = student_id demo_student \<and>
        student_createdAt r = student_createdAt demo_student \<and>
        student_userId r = (case pst_userId move_student of None \<Rightarrow> student_userId demo_student | Some v \<Rightarrow> v) \<and>
        student_classId r = (case pst_classId move_student of None \<Rightarrow> student_classId demo_student | Some v \<Rightarrow> v)) \<and>
   map_get (students (newMemStorage 0)) (Num 9) = None \<and>
   updateStudent (Num 9) move_student (newMemStorage 0) = (None, (newMemStorage 0)) \<and>
   map_get (assessors (newMemStorage 0)) (Num 1) = Some demo_assessor \<and>
   (\<exists>r. updateAssessor (Num 1) rescope_assessor (newMemStorage 0) = (Some r, (newMemStorage 0)\<lparr>assessors := map_set (Num 1) r (assessors (newMemStorage 0))\<rparr>) \<and>
        assessor_id r = assessor_id demo_assessor \<and>
        assessor_createdAt r = assessor_createdAt demo_assessor \<and>
        assessor_userId r = (case pa_userId rescope_assessor of None \<Rightarrow> assessor_userId demo_assessor | Some v \<Rightarrow> v) \<and>
        assessor_schoolIds r = (case pa_schoolIds rescope_assessor of None \<Rightarrow> assessor_schoolIds demo_assessor | Some v \<Rightarrow> v)) \<and>
   map_get (assessors (newMemStorage 0)) (Num 9) = None \<and>
   updateAssessor (Num 9) rescope_assessor (newMemStorage 0) = (None, (newMemStorage 0)) \<and>
   map_get (rubricTemplates (newMemStorage 0)) (Num 1) = Some demo_rubric \<and>
   (\<exists>r. updateRubricTemplate (Num 1) rename_rubric (newMemStorage 0) = (Some r, (newMemStorage 0)\<lparr>rubricTemplates := map_set (Num 1) r (rubricTemplates (newMemStorage 0))\<rparr>) \<and>
        rubric_id r = rubric_id demo_rubric \<and>
        rubric_createdAt r = rubric_createdAt demo_rubric \<and>
        rubric_name r = (case pr_name rename_rubric of None \<Rightarrow> rubric_name demo_rubric | Some v \<Rightarrow> v) \<and>
        rubric_description r = (case pr_description rename_rubric of None \<Rightarrow> rubric_description demo_rubric | Some v \<Rightarrow> v) \<and>
        rubric_criteria r = (case pr_criteria rename_rubric of None \<Rightarrow> rubric_criteria demo_rubric | Some v \<Rightarrow> v)) \<and>
   map_get (rubricTemplates (newMemStorage 0)) (Num 9) = None \<and>
   updateRubricTemplate (Num 9) rename_rubric (newMemStorage 0) = (None, (newMemStorage 0)) \<and>
   map_get (tasks (newMemStorage 0)) (Num 1) = Some demo_task \<and>
   (\<exists>r. updateTask (Num 1) rename_task (newMemStorage 0) = (Some r, (newMemStorage 0)\<lparr>tasks := map_set (Num 1) r (tasks (newMemStorage 0))\<rparr>) \<and>
        task_id r = task_id demo_task \<and>
        task_createdAt r = task_createdAt demo_task \<and>
        task_name r = (case pt_name rename_task of None \<Rightarrow> task_name demo_task | Some v \<Rightarrow> v) \<and>
        task_description r = (case pt_description rename_task of None \<Rightarrow> task_description demo_task | Some v \<Rightarrow> v) \<and>
        task_rubricTemplateId r = (case pt_rubricTemplateId rename_task of None \<Rightarrow> task_rubricTemplateId demo_task | Some v \<Rightarrow> v)) \<and>
   map_get (tasks (newMemStorage 0)) (Num 9) = None \<and>
   updateTask (Num 9) rename_task (newMemStorage 0) = (None, (newMemStorage 0)) \<and>
   map_get (assessments (newMemStorage 0)) (Num 1) = Some demo_assessment \<and>
   (\<exists>r. updateAssessment 5 (Num 1) complete_assessment (newMemStorage 0) = (Some r, (newMemStorage 0)\<lparr>assessments := map_set (Num 1) r (assessments (newMemStorage 0))\<rparr>) \<and>
        assessment_id r = assessment_id demo_assessment \<and>
        assessment_createdAt r = assessment_createdAt demo_assessment \<and>
        assessment_studentId r = (case pas_studentId complete_assessment of None \<Rightarrow> assessment_studentId demo_assessment | Some v \<Rightarrow> v) \<and>
        assessment_assessorId r = (case pas_assessorId complete_assessment of None \<Rightarrow> assessment_assessorId demo_assessment | Some v \<Rightarrow> v) \<and>
        assessment_taskId r = (case pas_taskId complete_assessment of None \<Rightarrow> assessment_taskId demo_assessment | Some v \<Rightarrow> v) \<and>
        assessment_status r = (case pas_status complete_assessment of None \<Rightarrow> assessment_status demo_assessment | Some v \<Rightarrow> Some v) \<and>
        assessment_scores r = (case pas_scores complete_assessment of None \<Rightarrow> assessment_scores demo_assessment | Some v \<Rightarrow> v) \<and>
        assessment_totalScore r = (case pas_totalScore complete_assessment of None \<Rightarrow> assessment_totalScore demo_assessment | Some v \<Rightarrow> v) \<and>
        assessment_feedback r = (case pas_feedback complete_assessment of None \<Rightarrow> assessment_feedback demo_assessment | Some v \<Rightarrow> v) \<and>
        assessment_pdfPath r = (case pas_pdfPath complete_assessment of None \<Rightarrow> assessment_pdfPath demo_assessment | Some v \<Rightarrow> v) \<and>
        assessment_updatedAt r = 5) \<and>
   map_get (assessments (newMemStorage 0)) (Num 9) = None \<and>
   updateAssessment 5 (Num 9) complete_assessment (newMemStorage 0) = (None, (newMemStorage 0))"
proof -
  note T1 = update_frame [where st = "newMemStorage 0" and i = "Num 1" and now = 5 and sch = demo_school and cls = demo_class and stu = demo_student and asr = demo_assessor and rub = demo_rubric and tsk = demo_task and asm = demo_assessment and ps = rename_school and pc = rename_class and pst = move_student and pa = rescope_assessor and pr = rename_rubric and pt = rename_task and pas = complete_assessment]
  note T9 = update_frame [where st = "newMemStorage 0" and i = "Num 9" and now = 5 and sch = demo_school and cls = demo_class and stu = demo_student and asr = demo_assessor and rub = demo_rubric and tsk = demo_task and asm = demo_assessment and ps = rename_school and pc = rename_class and pst = move_student and pa = rescope_assessor and pr = rename_rubric and pt = rename_task and pas = complete_assessment]
  have p1: "map_get (schools (newMemStorage 0)) (Num 1) = Some demo_school"
    unfolding demo_school_def by code_simp
  from T1 have "map_get (schools (newMemStorage 0)) (Num 1) = Some demo_school \<longrightarrow>
     (\<exists>r. updateSchool (Num 1) rename_school (newMemStorage 0) = (Some r, (newMemStorage 0)\<lparr>schools := map_set (Num 1) r (schools (newMemStorage 0))\<rparr>) \<and>
        school_id r = school_id demo_school \<and>
        school_createdAt r = school_createdAt demo_school \<and>
        school_name r = (case ps_name rename_school of None \<Rightarrow> school_name demo_school | Some v \<Rightarrow> v) \<and>
        school_address r = (case ps_address rename_school of None \<Rightarrow> school_address demo_school | Some v \<Rightarrow> v))"
    by (elim conjE)
  from this p1 have c1: "(\<exists>r. updateSchool (Num 1) rename_school (newMemStorage 0) = (Some r, (newMemStorage 0)\<lparr>schools := map_set (Num 1) r (schools (newMemStorage 0))\<rparr>) \<and>
        school_id r = school_id demo_school \<and>
        school_createdAt r = school_createdAt demo_school \<and>
        school_name r = (case ps_name rename_school of None \<Rightarrow> school_name demo_school | Some v \<Rightarrow> v) \<and>
        school_address r = (case ps_address rename_school of None \<Rightarrow> school_address demo_school | Some v \<Rightarrow> v))"
    by (rule mp)
  have a1: "map_get (schools (newMemStorage 0)) (Num 9) = None"
    by code_simp
  from T9 have "map_get (schools (newMemStorage 0)) (Num 9) = None \<longrightarrow> updateSchool (Num 9) rename_school (newMemStorage 0) = (None, (newMemStorage 0))"
    by (elim conjE)
  from this a1 have d1: "updateSchool (Num 9) rename_school (newMemStorage 0) = (None, (newMemStorage 0))"
    by (rule mp)
  have p2: "map_get (classes (newMemStorage 0)) (Num 1) = Some demo_class"
    unfolding demo_class_def by code_simp
  from T1 have "map_get (classes (newMemStorage 0)) (Num 1) = Some demo_class \<longrightarrow>
     (\<exists>r. updateClass (Num 1) rename_class (newMemStorage 0) = (Some r, (newMemStorage 0)\<lparr>classes := map_set (Num 1) r (classes (newMemStorage 0))\<rparr>) \<and>
        class_id r = class_id demo_class \<and>
        class_createdAt r = class_createdAt demo_class \<and>
        class_name r = (case pc_name rename_class of None \<Rightarrow> class_name demo_class | Some v \<Rightarrow> v) \<and>
        class_schoolId r = (case pc_schoolId rename_class of None \<Rightarrow> class_schoolId demo_class | Some v \<Rightarrow> v))"
    by (elim conjE)
  from this p2 have c2: "(\<exists>r. updateClass (Num 1) rename_class (newMemStorage 0) = (Some r, (newMemStorage 0)\<lparr>classes := map_set (Num 1) r (classes (newMemStorage 0))\<rparr>) \<and>
        class_id r = class_id demo_class \<and>
        class_createdAt r = class_createdAt demo_class \<and>
        class_name r = (case pc_name rename_class of None \<Rightarrow> class_name demo_class | Some v \<Rightarrow> v) \<and>
        class_schoolId r = (case pc_schoolId rename_class of None \<Rightarrow> class_schoolId demo_class | Some v \<Rightarrow> v))"
    by (rule mp)
  have a2: "map_get (classes (newMemStorage 0)) (Num 9) = None"
    by code_simp
  from T9 have "map_get (classes (newMemStorage 0)) (Num 9) = None \<longrightarrow> updateClass (Num 9) rename_class (newMemStorage 0) = (None, (newMemStorage 0))"
    by (elim conjE)
  from this a2 have d2: "updateClass (Num 9) rename_class (newMemStorage 0) = (None, (newMemStorage 0))"
    by (rule mp)
  have p3: "map_get (students (newMemStorage 0)) (Num 1) = Some demo_student"
    unfolding demo_student_def by code_simp
  from T1 have "map_get (students (newMemStorage 0)) (Num 1) = Some demo_student \<longrightarrow>
     (\<exists>r. updateStudent (Num 1) move_student (newMemStorage 0) = (Some r, (newMemStorage 0)\<lparr>students := map_set (Num 1) r (students (newMemStorage 0))\<rparr>) \<and>
        student_id r = student_id demo_student \<and>
        student_createdAt r = student_createdAt demo_student \<and>
        student_userId r = (case pst_userId move_student of None \<Rightarrow> student_userId demo_student | Some v \<Rightarrow> v) \<and>
        student_classId r = (case pst_classId move_student of None \<Rightarrow> student_classId demo_student | Some v \<Rightarrow> v))"
    by (elim conjE)
  from this p3 have c3: "(\<exists>r. updateStudent (Num 1) move_student (newMemStorage 0) = (Some r, (newMemStorage 0)\<lparr>students := map_set (Num 1) r (students (newMemStorage 0))\<rparr>) \<and>
        student_id r = student_id demo_student \<and>
        student_createdAt r = student_createdAt demo_student \<and>
        student_userId r = (case pst_userId move_student of None \<Rightarrow> student_userId demo_student | Some v \<Rightarrow> v) \<and>
        student_classId r = (case pst_classId move_student of None \<Rightarrow> student_classId demo_student | Some v \<Rightarrow> v))"
    by (rule mp)
  have a3: "map_get (students (newMemStorage 0)) (Num 9) = None"
    by code_simp
  from T9 have "map_get (students (newMemStorage 0)) (Num 9) = None \<longrightarrow> updateStudent (Num 9) move_student (newMemStorage 0) = (None, (newMemStorage 0))"
    by (elim conjE)
  from this a3 have d3: "updateStudent (Num 9) move_student (newMemStorage 0) = (None, (newMemStorage 0))"
    by (rule mp)
  have p4: "map_get (assessors (newMemStorage 0)) (Num 1) = Some demo_assessor"
    unfolding demo_assessor_def by code_simp
  from T1 have "map_get (assessors (newMemStorage 0)) (Num 1) = Some demo_assessor \<longrightarrow>
     (\<exists>r. updateAssessor (Num 1) rescope_assessor (newMemStorage 0) = (Some r, (newMemStorage 0)\<lparr>assessors := map_set (Num 1) r (assessors (newMemStorage 0))\<rparr>) \<and>
        assessor_id r = assessor_id demo_assessor \<and>
        assessor_createdAt r = assessor_createdAt demo_assessor \<and>
        assessor_userId r = (case pa_userId rescope_assessor of None \<Rightarrow> assessor_userId demo_assessor | Some v \<Rightarrow> v) \<and>
        assessor_schoolIds r = (case pa_schoolIds rescope_assessor of None \<Rightarrow> assessor_schoolIds demo_assessor | Some v \<Rightarrow> v))"
    by (elim conjE)
  from this p4 have c4: "(\<exists>r. updateAssessor (Num 1) rescope_assessor (newMemStorage 0) = (Some r, (newMemStorage 0)\<lparr>assessors := map_set (Num 1) r (assessors (newMemStorage 0))\<rparr>) \<and>
        assessor_id r = assessor_id demo_assessor \<and>
        assessor_createdAt r = assessor_createdAt demo_assessor \<and>
        assessor_userId r = (case pa_userId rescope_assessor of None \<Rightarrow> assessor_userId demo_assessor | Some v \<Rightarrow> v) \<and>
        assessor_schoolIds r = (case pa_schoolIds rescope_assessor of None \<Rightarrow> assessor_schoolIds demo_assessor | Some v \<Rightarrow> v))"
    by (rule mp)
  have a4: "map_get (assessors (newMemStorage 0)) (Num 9) = None"
    by code_simp
  from T9 have "map_get (assessors (newMemStorage 0)) (Num 9) = None \<longrightarrow> updateAssessor (Num 9) rescope_assessor (newMemStorage 0) = (None, (newMemStorage 0))"
    by (elim conjE)
  from this a4 have d4: "updateAssessor (Num 9) rescope_assessor (newMemStorage 0) = (None, (newMemStorage 0))"
    by (rule mp)
  have p5: "map_get (rubricTemplates (newMemStorage 0)) (Num 1) = Some demo_rubric"
    unfolding demo_rubric_def by code_simp
  from T1 have "map_get (rubricTemplates (newMemStorage 0)) (Num 1) = Some demo_rubric \<longrightarrow>
     (\<exists>r. updateRubricTemplate (Num 1) rename_rubric (newMemStorage 0) = (Some r, (newMemStorage 0)\<lparr>rubricTemplates := map_set (Num 1) r (rubricTemplates (newMemStorage 0))\<rparr>) \<and>
        rubric_id r = rubric_id demo_rubric \<and>
        rubric_createdAt r = rubric_createdAt demo_rubric \<and>
        rubric_name r = (case pr_name rename_rubric of None \<Rightarrow> rubric_name demo_rubric | Some v \<Rightarrow> v) \<and>
        rubric_description r = (case pr_description rename_rubric of None \<Rightarrow> rubric_description demo_rubric | Some v \<Rightarrow> v) \<and>
        rubric_criteria r = (case pr_criteria rename_rubric of None \<Rightarrow> rubric_criteria demo_rubric | Some v \<Rightarrow> v))"
    by (elim conjE)
  from this p5 have c5: "(\<exists>r. updateRubricTemplate (Num 1) rename_rubric (newMemStorage 0) = (Some r, (newMemStorage 0)\<lparr>rubricTemplates := map_set (Num 1) r (rubricTemplates (newMemStorage 0))\<rparr>) \<and>
        rubric_id r = rubric_id demo_rubric \<and>
        rubric_createdAt r = rubric_createdAt demo_rubric \<and>
        rubric_name r = (case pr_name rename_rubric of None \<Rightarrow> rubric_name demo_rubric | Some v \<Rightarrow> v) \<and>
        rubric_description r = (case pr_description rename_rubric of None \<Rightarrow> rubric_description demo_rubric | Some v \<Rightarrow> v) \<and>
        rubric_criteria r = (case pr_criteria rename_rubric of None \<Rightarrow> rubric_criteria demo_rubric | Some v \<Rightarrow> v))"
    by (rule mp)
  have a5: "map_get (rubricTemplates (newMemStorage 0)) (Num 9) = None"
    by code_simp
  from T9 have "map_get (rubricTemplates (newMemStorage 0)) (Num 9) = None \<longrightarrow> updateRubricTemplate (Num 9) rename_rubric (newMemStorage 0) = (None, (newMemStorage 0))"
    by (elim conjE)
  from this a5 have d5: "updateRubricTemplate (Num 9) rename_rubric (newMemStorage 0) = (None, (newMemStorage 0))"
    by (rule mp)
  have p6: "map_get (tasks (newMemStorage 0)) (Num 1) = Some demo_task"
    unfolding demo_task_def by code_simp
  from T1 have "map_get (tasks (newMemStorage 0)) (Num 1) = Some demo_task \<longrightarrow>
     (\<exists>r. updateTask (Num 1) rename_task (newMemStorage 0) = (Some r, (newMemStorage 0)\<lparr>tasks := map_set (Num 1) r (tasks (newMemStorage 0))\<rparr>) \<and>
        task_id r = task_id demo_task \<and>
        task_createdAt r = task_createdAt demo_task \<and>
        task_name r = (case pt_name rename_task of None \<Rightarrow> task_name demo_task | Some v \<Rightarrow> v) \<and>
        task_description r = (case pt_description rename_task of None \<Rightarrow> task_description demo_task | Some v \<Rightarrow> v) \<and>
        task_rubricTemplateId r = (case pt_rubricTemplateId rename_task of None \<Rightarrow> task_rubricTemplateId demo_task | Some v \<Rightarrow> v))"
    by (elim conjE)
  from this p6 have c6: "(\<exists>r. updateTask (Num 1) rename_task (newMemStorage 0) = (Some r, (newMemStorage 0)\<lparr>tasks := map_set (Num 1) r (tasks (newMemStorage 0))\<rparr>) \<and>
        task_id r = task_id demo_task \<and>
        task_createdAt r = task_createdAt demo_task \<and>
        task_name r = (case pt_name rename_task of None \<Rightarrow> task_name demo_task | Some v \<Rightarrow> v) \<and>
        task_description r = (case pt_description rename_task of None \<Rightarrow> task_description demo_task | Some v \<Rightarrow> v) \<and>
        task_rubricTemplateId r = (case pt_rubricTemplateId rename_task of None \<Rightarrow> task_rubricTemplateId demo_task | Some v \<Rightarrow> v))"
    by (rule mp)
  have a6: "map_get (tasks (newMemStorage 0)) (Num 9) = None"
    by code_simp
  from T9 have "map_get (tasks (newMemStorage 0)) (Num 9) = None \<longrightarrow> updateTask (Num 9) rename_task (newMemStorage 0) = (None, (newMemStorage 0))"
    by (elim conjE)
  from this a6 have d6: "updateTask (Num 9) rename_task (newMemStorage 0) = (None, (newMemStorage 0))"
    by (rule mp)
  have p7: "map_get (assessments (newMemStorage 0)) (Num 1) = Some demo_assessment"
    unfolding demo_assessment_def by code_simp
  from T1 have "map_get (assessments (newMemStorage 0)) (Num 1) = Some demo_assessment \<longrightarrow>
     (\<exists>r. updateAssessment 5 (Num 1) complete_assessment (newMemStorage 0) = (Some r, (newMemStorage 0)\<lparr>assessments := map_set (Num 1) r (assessments (newMemStorage 0))\<rparr>) \<and>
        assessment_id r = assessment_id demo_assessment \<and>
        assessment_createdAt r = assessment_createdAt demo_assessment \<and>
        assessment_studentId r = (case pas_studentId complete_assessment of None \<Rightarrow> assessment_studentId demo_assessment | Some v \<Rightarrow> v) \<and>
        assessment_assessorId r = (case pas_assessorId complete_assessment of None \<Rightarrow> assessment_assessorId demo_assessment | Some v \<Rightarrow> v) \<and>
        assessment_taskId r = (case pas_taskId complete_assessment of None \<Rightarrow> assessment_taskId demo_assessment | Some v \<Rightarrow> v) \<and>
        assessment_status r = (case pas_status complete_assessment of None \<Rightarrow> assessment_status demo_assessment | Some v \<Rightarrow> Some v) \<and>
        assessment_scores r = (case pas_scores complete_assessment of None \<Rightarrow> assessment_scores demo_assessment | Some v \<Rightarrow> v) \<and>
        assessment_totalScore r = (case pas_totalScore complete_assessment of None \<Rightarrow> assessment_totalScore demo_assessment | Some v \<Rightarrow> v) \<and>
        assessment_feedback r = (case pas_feedback complete_assessment of None \<Rightarrow> assessment_feedback demo_assessment | Some v \<Rightarrow> v) \<and>
        assessment_pdfPath r = (case pas_pdfPath complete_assessment of None \<Rightarrow> assessment_pdfPath demo_assessment | Some v \<Rightarrow> v) \<and>
        assessment_updatedAt r = 5)"
    by (elim conjE)
  from this p7 have c7: "(\<exists>r. updateAssessment 5 (Num 1) complete_assessment (newMemStorage 0) = (Some r, (newMemStorage 0)\<lparr>assessments := map_set (Num 1) r (assessments (newMemStorage 0))\<rparr>) \<and>
        assessment_id r = assessment_id demo_assessment \<and>
        assessment_createdAt r = assessment_createdAt demo_assessment \<and>
        assessment_studentId r = (case pas_studentId complete_assessment of None \<Rightarrow> assessment_studentId demo_assessment | Some v \<Rightarrow> v) \<and>
        assessment_assessorId r = (case pas_assessorId complete_assessment of None \<Rightarrow> assessment_assessorId demo_assessment | Some v \<Rightarrow> v) \<and>
        assessment_taskId r = (case pas_taskId complete_assessment of None \<Rightarrow> assessment_taskId demo_assessment | Some v \<Rightarrow> v) \<and>
        assessment_status r = (case pas_status complete_assessment of None \<Rightarrow> assessment_status demo_assessment | Some v \<Rightarrow> Some v) \<and>
        assessment_scores r = (case pas_scores complete_assessment of None \<Rightarrow> assessment_scores demo_assessment | Some v \<Rightarrow> v) \<and>
        assessment_totalScore r = (case pas_totalScore complete_assessment of None \<Rightarrow> assessment_totalScore demo_assessment | Some v \<Rightarrow> v) \<and>
        assessment_feedback r = (case pas_feedback complete_assessment of None \<Rightarrow> assessment_feedback demo_assessment | Some v \<Rightarrow> v) \<and>
        assessment_pdfPath r = (case pas_pdfPath complete_assessment of None \<Rightarrow> assessment_pdfPath demo_assessment | Some v \<Rightarrow> v) \<and>
        assessment_updatedAt r = 5)"
    by (rule mp)
  have a7: "map_get (assessments (newMemStorage 0)) (Num 9) = None"
    by code_simp
  from T9 have "map_get (assessments (newMemStorage 0)) (Num 9) = None \<longrightarrow> updateAssessment 5 (Num 9) complete_assessment (newMemStorage 0) = (None, (newMemStorage 0))"
    by (elim conjE)
  from this a7 have d7: "updateAssessment 5 (Num 9) complete_assessment (newMemStorage 0) = (None, (newMemStorage 0))"
    by (rule mp)
  from p1 c1 a1 d1 p2 c2 a2 d2 p3 c3 a3 d3 p4 c4 a4 d4 p5 c5 a5 d5 p6 c6 a6 d6 p7 c7 a7 d7 show ?thesis
    by (intro conjI)
qed

subsection \<open>Roles of created users\<close>

lemma set_update_subset: "set (AList.update k v xs) \<subseteq> insert (k, v) (set xs)"
  by (induction xs) auto

lemma values_map_set:
  "list_all P (map_values m) \<Longrightarrow> P v \<Longrightarrow> list_all P (map_values (map_set k v m))"
  using set_update_subset [of k v m]
  by (fastforce simp: list_all_iff map_values_def map_set_def)

lemma keys_map_set:
  "list_all P (map fst m) \<Longrightarrow> P k \<Longrightarrow> list_all P (map fst (map_set k v m))"
  using set_update_subset [of k v m]
  by (fastforce simp: list_all_iff map_set_def)

lemma fresh_counter_unused:
  assumes "users_fresh st"
  shows "map_get (users st) (userId st) = None"
proof -
  from assms obtain n where n: "userId st = Num n"
    and keys: "list_all (\<lambda>k. case k of Num m \<Rightarrow> m < n | _ \<Rightarrow> False) (map fst (users st))"
    by (auto simp: users_fresh_def split: number.splits)
  have "Num n \<notin> fst ` set (users st)"
  proof
    assume "Num n \<in> fst ` set (users st)"
    then obtain b where "(Num n, b) \<in> set (users st)" by auto
    with keys have "case fst (Num n, b) of Num m \<Rightarrow> m < n | _ \<Rightarrow> False"
      unfolding list_all_iff by (metis (no_types, lifting) imageI list.set_map)
    then have "n < n" by simp
    then show False by simp
  qed
  with n show ?thesis by (simp add: map_get_def map_of_eq_None_iff)
qed

lemma createUser_fresh:
  assumes "users_fresh st"
  shows "users_fresh (snd (createUser now user st))"
proof -
  from assms obtain n where n: "userId st = Num n"
    and keys: "list_all (\<lambda>k. case k of Num m \<Rightarrow> m < n | _ \<Rightarrow> False) (map fst (users st))"
    by (auto simp: users_fresh_def split: number.splits)
  from keys have "list_all (\<lambda>k. case k of Num m \<Rightarrow> m < n + 1 | _ \<Rightarrow> False) (map fst (users st))"
    by (auto simp: list_all_iff split: number.splits)
  then show ?thesis
    using n by (simp add: users_fresh_def createUser_def Let_def incr_def keys_map_set)
qed

lemma createUser_links:
  assumes "users_fresh st"
  shows "student_linked st s \<Longrightarrow> student_linked (snd (createUser now user st)) s"
    and "assessor_linked st a \<Longrightarrow> assessor_linked (snd (createUser now user st)) a"
  using fresh_counter_unused [OF assms]
  by (auto simp: student_linked_def assessor_linked_def createUser_def Let_def map_get_set
      split: option.splits)

lemma createUser_consistent:
  assumes "users_fresh st" and "roles_consistent st"
  shows "roles_consistent (snd (createUser now user st))"
proof -
  have s: "students (snd (createUser now user st)) = students st"
    and a: "assessors (snd (createUser now user st)) = assessors st"
    by (simp_all add: createUser_def Let_def)
  from assms(2) createUser_links [OF assms(1)] show ?thesis
    unfolding roles_consistent_def s a by (auto simp: list_all_iff)
qed

lemma createUser_result:
  "map_get (users (snd (createUser now user st))) (user_id (fst (createUser now user st)))
     = Some (fst (createUser now user st))"
  "user_role (fst (createUser now user st)) = iu_role user"
  by (simp_all add: createUser_def Let_def map_get_set)


lemma linked_cong:
  "users st' = users st \<Longrightarrow> student_linked st' = student_linked st"
  "users st' = users st \<Longrightarrow> assessor_linked st' = assessor_linked st"
  by (auto simp: student_linked_def assessor_linked_def fun_eq_iff)

lemma inv_cong:
  assumes "users st' = users st" and "students st' = students st"
    and "assessors st' = assessors st" and "userId st' = userId st"
  shows "users_fresh st' = users_fresh st" and "roles_consistent st' = roles_consistent st"
proof -
  show "users_fresh st' = users_fresh st"
    by (simp only: users_fresh_def assms)
  show "roles_consistent st' = roles_consistent st"
    by (simp only: roles_consistent_def linked_cong [OF assms(1)] assms)
qed

lemma createStudent_linked:
  "map_get (students (snd (createStudent userNow now student userData st)))
      (student_id (fst (createStudent userNow now student userData st)))
     = Some (fst (createStudent userNow now student userData st)) \<and>
   student_linked (snd (createStudent userNow now student userData st))
     (fst (createStudent userNow now student userData st))"
  by (simp add: createStudent_def createUser_def Let_def map_get_set student_linked_def)

lemma createAssessor_linked:
  "map_get (assessors (snd (createAssessor userNow now assessor userData st)))
      (assessor_id (fst (createAssessor userNow now assessor userData st)))
     = Some (fst (createAssessor userNow now assessor userData st)) \<and>
   assessor_linked (snd (createAssessor userNow now assessor userData st))
     (fst (createAssessor userNow now assessor userData st))"
  by (simp add: createAssessor_def createUser_def Let_def map_get_set assessor_linked_def)

lemma createStudent_inv:
  assumes "users_fresh st" and "roles_consistent st"
  shows "users_fresh (snd (createStudent userNow now student userData st))"
    and "roles_consistent (snd (createStudent userNow now student userData st))"
proof -
  let ?u = "userData\<lparr>iu_role := Student\<rparr>"
  let ?st1 = "snd (createUser userNow ?u st)"
  let ?st' = "snd (createStudent userNow now student userData st)"
  let ?s = "fst (createStudent userNow now student userData st)"
  have u: "users ?st' = users ?st1" and i: "userId ?st' = userId ?st1"
    and a: "assessors ?st' = assessors ?st1"
    and s: "students ?st' = map_set (studentId ?st1) ?s (students ?st1)"
    by (simp_all add: createStudent_def Let_def split_beta)
  have "users_fresh ?st' = users_fresh ?st1"
    by (simp only: users_fresh_def u i)
  with createUser_fresh [OF assms(1), of userNow ?u]
  show "users_fresh ?st'" by simp
  from createUser_consistent [OF assms, of userNow ?u]
  have sl: "list_all (student_linked ?st1) (map_values (students ?st1))"
    and as: "list_all (assessor_linked ?st1) (map_values (assessors ?st1))"
    by (simp_all add: roles_consistent_def)
  from createStudent_linked [of userNow now student userData st]
  have new: "student_linked ?st1 ?s" by (simp add: linked_cong [OF u])
  from sl new have "list_all (student_linked ?st1) (map_values (students ?st'))"
    unfolding s by (rule values_map_set)
  with as a show "roles_consistent ?st'"
    by (simp add: roles_consistent_def linked_cong [OF u])
qed

lemma createAssessor_inv:
  assumes "users_fresh st" and "roles_consistent st"
  shows "users_fresh (snd (createAssessor userNow now assessor userData st))"
    and "roles_consistent (snd (createAssessor userNow now assessor userData st))"
proof -
  let ?u = "userData\<lparr>iu_role := Assessor\<rparr>"
  let ?st1 = "snd (createUser userNow ?u st)"
  let ?st' = "snd (createAssessor userNow now assessor userData st)"
  let ?a = "fst (createAssessor userNow now assessor userData st)"
  have u: "users ?st' = users ?st1" and i: "userId ?st' = userId ?st1"
    and s: "students ?st' = students ?st1"
    and a: "assessors ?st' = map_set (assessorId ?st1) ?a (assessors ?st1)"
    by (simp_all add: createAssessor_def Let_def split_beta)
  have "users_fresh ?st' = users_fresh ?st1"
    by (simp only: users_fresh_def u i)
  with createUser_fresh [OF assms(1), of userNow ?u]
  show "users_fresh ?st'" by simp
  from createUser_consistent [OF assms, of userNow ?u]
  have ss: "list_all (student_linked ?st1) (map_values (students ?st1))"
    and al: "list_all (assessor_linked ?st1) (map_values (assessors ?st1))"
    by (simp_all add: roles_consistent_def)
  from createAssessor_linked [of userNow now assessor userData st]
  have new: "assessor_linked ?st1 ?a" by (simp add: linked_cong [OF u])
  from al new have "list_all (assessor_linked ?st1) (map_values (assessors ?st'))"
    unfolding a by (rule values_map_set)
  with ss s show "roles_consistent ?st'"
    by (simp add: roles_consistent_def linked_cong [OF u])
qed

lemma apply_create_inv:
  assumes "users_fresh st" and "roles_consistent st"
  shows "users_fresh (apply_create c st) \<and> roles_consistent (apply_create c st)"
proof (cases c)
  case (CreateUser now user)
  with assms show ?thesis by (simp add: createUser_fresh createUser_consistent)
next
  case (CreateStudent userNow now student userData)
  with assms show ?thesis by (simp add: createStudent_inv)
next
  case (CreateAssessor userNow now assessor userData)
  with assms show ?thesis by (simp add: createAssessor_inv)
next
  case (CreateSchool now school)
  with assms inv_cong [of "snd (createSchool now school st)" st] show ?thesis
    by (simp add: createSchool_def Let_def)
next
  case (CreateClass now cls)
  with assms inv_cong [of "snd (createClass now cls st)" st] show ?thesis
    by (simp add: createClass_def Let_def)
next
  case (CreateRubricTemplate now template)
  with assms inv_cong [of "snd (createRubricTemplate now template st)" st] show ?thesis
    by (simp add: createRubricTemplate_def Let_def)
next
  case (CreateTask now task)
  with assms inv_cong [of "snd (createTask now task st)" st] show ?thesis
    by (simp add: createTask_def Let_def)
next
  case (CreateClassTask now classTask)
  with assms inv_cong [of "snd (createClassTask now classTask st)" st] show ?thesis
    by (simp add: createClassTask_def Let_def)
next
  case (CreateAssessment now assessment)
  with assms inv_cong [of "snd (createAssessment now assessment st)" st] show ?thesis
    by (simp add: createAssessment_def Let_def)
qed

lemma run_creates_inv:
  "users_fresh st \<Longrightarrow> roles_consistent st \<Longrightarrow>
   users_fresh (run_creates cs st) \<and> roles_consistent (run_creates cs st)"
  unfolding run_creates_def
proof (induction cs arbitrary: st)
  case Nil
  then show ?case by simp
next
  case (Cons c cs)
  from apply_create_inv [OF Cons.prems, of c] Cons.IH [of "apply_create c st"]
  show ?case by simp
qed

lemma emptyStore_inv: "users_fresh emptyStore \<and> roles_consistent emptyStore"
  by (simp add: users_fresh_def roles_consistent_def emptyStore_def map_values_def)

lemma newMemStorage_inv:
  "users_fresh (newMemStorage now) \<and> roles_consistent (newMemStorage now)"
  by code_simp

text \<open>
  Claim C9.  Whatever role the user data carry, the student that \<open>createStudent\<close> returns is
  stored under its id and points to a stored user whose role is student, and likewise for
  \<open>createAssessor\<close> and the role assessor, in every store.  In a store whose counter of user
  ids is above the ids in use, a sequence of create operations keeps it so and keeps every
  student linked to a user with the role student and every assessor to a user with the role
  assessor; the store the constructor builds is such a store, so this holds after any
  sequence of create operations on it.
\<close>

theorem created_users_have_role:
  "map_get (students (snd (createStudent userNow now student userData st)))
      (student_id (fst (createStudent userNow now student userData st)))
     = Some (fst (createStudent userNow now student userData st)) \<and>
   student_linked (snd (createStudent userNow now student userData st))
     (fst (createStudent userNow now student userData st)) \<and>
   map_get (assessors (snd (createAssessor userNow now assessor userData st)))
      (assessor_id (fst (createAssessor userNow now assessor userData st)))
     = Some (fst (createAssessor userNow now assessor userData st)) \<and>
   assessor_linked (snd (createAssessor userNow now assessor userData st))
     (fst (createAssessor userNow now assessor userData st)) \<and>
   (users_fresh st \<and> roles_consistent st \<longrightarrow>
      users_fresh (run_creates cs st) \<and> roles_consistent (run_creates cs st)) \<and>
   roles_consistent (run_creates cs (newMemStorage t))"
  apply (intro conjI impI)
  subgoal using createStudent_linked [of userNow now student userData st] by (rule conjunct1)
  subgoal using createStudent_linked [of userNow now student userData st] by (rule conjunct2)
  subgoal using createAssessor_linked [of userNow now assessor userData st] by (rule conjunct1)
  subgoal using createAssessor_linked [of userNow now assessor userData st] by (rule conjunct2)
  subgoal by (erule conjE) (rule run_creates_inv [THEN conjunct1])
  subgoal by (erule conjE) (rule run_creates_inv [THEN conjunct2])
  subgoal using newMemStorage_inv [of t]
    by (elim conjE) (rule run_creates_inv [THEN conjunct2])
  done

theorem created_users_have_role_witness:
  "users_fresh (newMemStorage 0) \<and> roles_consistent (newMemStorage 0) \<and>
   roles_consistent (run_creates example_creates (newMemStorage 0)) \<and>
   map (user_role \<circ> snd) (users (run_creates example_creates (newMemStorage 0)))
     = [Admin, Assessor, Student, Student, Student, Assessor, Assessor, Student] \<and>
   map (student_userId \<circ> snd) (students (run_creates example_creates (newMemStorage 0)))
     = [Num 3, Num 4, Num 5, Num 8] \<and>
   map (assessor_userId \<circ> snd) (assessors (run_creates example_creates (newMemStorage 0)))
     = [Num 2, Num 6]"
proof -
  note T = created_users_have_role [where st = "newMemStorage 0" and cs = example_creates
      and userNow = 0 and now = 0 and t = 0
      and student = "\<lparr>ist_userId = Num 1, ist_classId = Num 1\<rparr>"
      and assessor = "\<lparr>ia_userId = Num 1, ia_schoolIds = []\<rparr>"
      and userData = "example_user Admin"]
  have h: "users_fresh (newMemStorage 0) \<and> roles_consistent (newMemStorage 0)"
    by code_simp
  from T have "users_fresh (newMemStorage 0) \<and> roles_consistent (newMemStorage 0) \<longrightarrow>
      users_fresh (run_creates example_creates (newMemStorage 0)) \<and>
      roles_consistent (run_creates example_creates (newMemStorage 0))"
    by (elim conjE)
  from this h have "users_fresh (run_creates example_creates (newMemStorage 0)) \<and>
      roles_consistent (run_creates example_creates (newMemStorage 0))"
    by (rule mp)
  then have c: "roles_consistent (run_creates example_creates (newMemStorage 0))"
    by (rule conjunct2)
  have r: "map (user_role \<circ> snd) (users (run_creates example_creates (newMemStorage 0)))
     = [Admin, Assessor, Student, Student, Student, Assessor, Assessor, Student]"
    by code_simp
  have s: "map (student_userId \<circ> snd) (students (run_creates example_creates (newMemStorage 0)))
     = [Num 3, Num 4, Num 5, Num 8]"
    by code_simp
  have a: "map (assessor_userId \<circ> snd) (assessors (run_creates example_creates (newMemStorage 0)))
     = [Num 2, Num 6]"
    by code_simp
  from h c r s a show ?thesis
    by (intro conjI) (erule conjunct1 conjunct2 | assumption)+
qed

subsection \<open>Responses of the update routes\<close>

lemma putSchool_invalid:
  "isAdmin req \<and> parseSchool (req_body req) = Inl errors \<Longrightarrow>
     putSchool parseSchool req st =
        (\<lparr>res_status = 400, res_body = Invalid ''Invalid school data'' errors\<rparr>, st)"
  by (simp add: putSchool_def)

lemma putSchool_not_found:
  "isAdmin req \<and> parseSchool (req_body req) = Inr schoolData \<and>
      map_get (schools st) (req_id req) = None \<Longrightarrow>
     putSchool parseSchool req st =
        (\<lparr>res_status = 404, res_body = Message ''School not found''\<rparr>, st)"
  by (simp add: putSchool_def updateSchool_def)

lemma putClass_invalid:
  "isAdmin req \<and> parseClass (req_body req) = Inl errors \<Longrightarrow>
     putClass parseClass req st =
        (\<lparr>res_status = 400, res_body = Invalid ''Invalid class data'' errors\<rparr>, st)"
  by (simp add: putClass_def)

lemma putClass_not_found:
  "isAdmin req \<and> parseClass (req_body req) = Inr classData \<and>
      map_get (classes st) (req_id req) = None \<Longrightarrow>
     putClass parseClass req st =
        (\<lparr>res_status = 404, res_body = Message ''Class not found''\<rparr>, st)"
  by (simp add: putClass_def updateClass_def)

lemma putStudent_invalid:
  "isAdmin req \<and> parseStudent (req_body req) = Inl errors \<Longrightarrow>
     putStudent parseStudent req st =
        (\<lparr>res_status = 400, res_body = Invalid ''Invalid student data'' errors\<rparr>, st)"
  by (simp add: putStudent_def)

lemma putStudent_not_found:
  "isAdmin req \<and> parseStudent (req_body req) = Inr studentData \<and>
      map_get (students st) (req_id req) = None \<Longrightarrow>
     putStudent parseStudent req st =
        (\<lparr>res_status = 404, res_body = Message ''Student not found''\<rparr>, st)"
  by (simp add: putStudent_def updateStudent_def)

lemma putAssessor_invalid:
  "isAdmin req \<and> parseAssessor (req_body req) = Inl errors \<Longrightarrow>
     putAssessor parseAssessor req st =
        (\<lparr>res_status = 400, res_body = Invalid ''Invalid assessor data'' errors\<rparr>, st)"
  by (simp add: putAssessor_def)

lemma putAssessor_not_found:
  "isAdmin req \<and> parseAssessor (req_body req) = Inr assessorData \<and>
      map_get (assessors st) (req_id req) = None \<Longrightarrow>
     putAssessor parseAssessor req st =
        (\<lparr>res_status = 404, res_body = Message ''Assessor not found''\<rparr>, st)"
  by (simp add: putAssessor_def updateAssessor_def)

lemma putRubricTemplate_invalid:
  "isAdmin req \<and> parseTemplate (req_body req) = Inl errors \<Longrightarrow>
     putRubricTemplate parseTemplate req st =
        (\<lparr>res_status = 400, res_body = Invalid ''Invalid rubric template data'' errors\<rparr>, st)"
  by (simp add: putRubricTemplate_def)

lemma putRubricTemplate_not_found:
  "isAdmin req \<and> parseTemplate (req_body req) = Inr templateData \<and>
      map_get (rubricTemplates st) (req_id req) = None \<Longrightarrow>
     putRubricTemplate parseTemplate req st =
        (\<lparr>res_status = 404, res_body = Message ''Rubric template not found''\<rparr>, st)"
  by (simp add: putRubricTemplate_def updateRubricTemplate_def)

lemma putTask_invalid:
  "isAdmin req \<and> parseTask (req_body req) = Inl errors \<Longrightarrow>
     putTask parseTask req st =
        (\<lparr>res_status = 400, res_body = Invalid ''Invalid task data'' errors\<rparr>, st)"
  by (simp add: putTask_def)

lemma putTask_not_found:
  "isAdmin req \<and> parseTask (req_body req) = Inr taskData \<and>
      map_get (tasks st) (req_id req) = None \<Longrightarrow>
     putTask parseTask req st =
        (\<lparr>res_status = 404, res_body = Message ''Task not found''\<rparr>, st)"
  by (simp add: putTask_def updateTask_def)

lemma putAssessment_invalid:
  "isAssessor req \<and> parseAssessment (req_body req) = Inl errors \<Longrightarrow>
     putAssessment parseAssessment written t u req st =
        (\<lparr>res_status = 400, res_body = Invalid ''Invalid assessment data'' errors\<rparr>, st)"
  by (simp add: putAssessment_def)

lemma putAssessment_not_found:
  "isAssessor req \<and> parseAssessment (req_body req) = Inr assessmentData \<and>
      map_get (assessments st) (req_id req) = None \<Longrightarrow>
     putAssessment parseAssessment written t u req st =
        (\<lparr>res_status = 404, res_body = Message ''Assessment not found''\<rparr>, st)"
  by (simp add: putAssessment_def updateAssessment_def getAssessment_def)

text \<open>
  Claim C7, as amended.  For each of the seven update routes and every request that passes the
  authorisation check of the route (\<open>isAdmin\<close>, or \<open>isAssessor\<close> for assessments): when the
  schema rejects the body, the response has status 400 and carries the issues of the schema,
  and the store is the one before the request; when the schema accepts the body and the id is
  not in the store, the response has status 404 and the store is the one before the request.
\<close>

theorem update_routes_reject:
  "(isAdmin req \<and> parseSchool (req_body req) = Inl errors \<longrightarrow>
      putSchool parseSchool req st =
        (\<lparr>res_status = 400, res_body = Invalid ''Invalid school data'' errors\<rparr>, st)) \<and>
   (isAdmin req \<and> parseSchool (req_body req) = Inr schoolData \<and>
      map_get (schools st) (req_id req) = None \<longrightarrow>
      putSchool parseSchool req st =
        (\<lparr>res_status = 404, res_body = Message ''School not found''\<rparr>, st)) \<and>
   (isAdmin req \<and> parseClass (req_body req) = Inl errors \<longrightarrow>
      putClass parseClass req st =
        (\<lparr>res_status = 400, res_body = Invalid ''Invalid class data'' errors\<rparr>, st)) \<and>
   (isAdmin req \<and> parseClass (req_body req) = Inr classData \<and>
      map_get (classes st) (req_id req) = None \<longrightarrow>
      putClass parseClass req st =
        (\<lparr>res_status = 404, res_body = Message ''Class not found''\<rparr>, st)) \<and>
   (isAdmin req \<and> parseStudent (req_body req) = Inl errors \<longrightarrow>
      putStudent parseStudent req st =
        (\<lparr>res_status = 400, res_body = Invalid ''Invalid student data'' errors\<rparr>, st)) \<and>
   (isAdmin req \<and> parseStudent (req_body req) = Inr studentData \<and>
      map_get (students st) (req_id req) = None \<longrightarrow>
      putStudent parseStudent req st =
        (\<lparr>res_status = 404, res_body = Message ''Student not found''\<rparr>, st)) \<and>
   (isAdmin req \<and> parseAssessor (req_body req) = Inl errors \<longrightarrow>
      putAssessor parseAssessor req st =
        (\<lparr>res_status = 400, res_body = Invalid ''Invalid assessor data'' errors\<rparr>, st)) \<and>
   (isAdmin req \<and> parseAssessor (req_body req) = Inr assessorData \<and>
      map_get (assessors st) (req_id req) = None \<longrightarrow>
      putAssessor parseAssessor req st =
        (\<lparr>res_status = 404, res_body = Message ''Assessor not found''\<rparr>, st)) \<and>
   (isAdmin req \<and> parseTemplate (req_body req) = Inl errors \<longrightarrow>
      putRubricTemplate parseTemplate req st =
        (\<lparr>res_status = 400, res_body = Invalid ''Invalid rubric template data'' errors\<rparr>, st)) \<and>
   (isAdmin req \<and> parseTemplate (req_body req) = Inr templateData \<and>
      map_get (rubricTemplates st) (req_id req) = None \<longrightarrow>
      putRubricTemplate parseTemplate req st =
        (\<lparr>res_status = 404, res_body = Message ''Rubric template not found''\<rparr>, st)) \<and>
   (isAdmin req \<and> parseTask (req_body req) = Inl errors \<longrightarrow>
      putTask parseTask req st =
        (\<lparr>res_status = 400, res_body = Invalid ''Invalid task data'' errors\<rparr>, st)) \<and>
   (isAdmin req \<and> parseTask (req_body req) = Inr taskData \<and>
      map_get (tasks st) (req_id req) = None \<longrightarrow>
      putTask parseTask req st =
        (\<lparr>res_status = 404, res_body = Message ''Task not found''\<rparr>, st)) \<and>
   (isAssessor req \<and> parseAssessment (req_body req) = Inl errors \<longrightarrow>
      putAssessment parseAssessment written t u req st =
        (\<lparr>res_status = 400, res_body = Invalid ''Invalid assessment data'' errors\<rparr>, st)) \<and>
   (isAssessor req \<and> parseAssessment (req_body req) = Inr assessmentData \<and>
      map_get (assessments st) (req_id req) = None \<longrightarrow>
      putAssessment parseAssessment written t u req st =
        (\<lparr>res_status = 404, res_body = Message ''Assessment not found''\<rparr>, st))"
  apply (intro conjI impI)
  subgoal by (rule putSchool_invalid)
  subgoal by (rule putSchool_not_found)
  subgoal by (rule putClass_invalid)
  subgoal by (rule putClass_not_found)
  subgoal by (rule putStudent_invalid)
  subgoal by (rule putStudent_not_found)
  subgoal by (rule putAssessor_invalid)
  subgoal by (rule putAssessor_not_found)
  subgoal by (rule putRubricTemplate_invalid)
  subgoal by (rule putRubricTemplate_not_found)
  subgoal by (rule putTask_invalid)
  subgoal by (rule putTask_not_found)
  subgoal by (rule putAssessment_invalid)
  subgoal by (rule putAssessment_not_found)
  done

theorem update_routes_reject_witness:
  "isAdmin admin_request \<and>
   isAssessor admin_request \<and>
   putSchool (reject example_issues) admin_request (newMemStorage 0) =
        (\<lparr>res_status = 400, res_body = Invalid ''Invalid school data'' example_issues\<rparr>, (newMemStorage 0)) \<and>
   putSchool (accept rename_school) admin_request (newMemStorage 0) =
        (\<lparr>res_status = 404, res_body = Message ''School not found''\<rparr>, (newMemStorage 0)) \<and>
   putClass (reject example_issues) admin_request (newMemStorage 0) =
        (\<lparr>res_status = 400, res_body = Invalid ''Invalid class data'' example_issues\<rparr>, (newMemStorage 0)) \<and>
   putClass (accept rename_class) admin_request (newMemStorage 0) =
        (\<lparr>res_status = 404, res_body = Message ''Class not found''\<rparr>, (newMemStorage 0)) \<and>
   putStudent (reject example_issues) admin_request (newMemStorage 0) =
        (\<lparr>res_status = 400, res_body = Invalid ''Invalid student data'' example_issues\<rparr>, (newMemStorage 0)) \<and>
   putStudent (accept move_student) admin_request (newMemStorage 0) =
        (\<lparr>res_status = 404, res_body = Message ''Student not found''\<rparr>, (newMemStorage 0)) \<and>
   putAssessor (reject example_issues) admin_request (newMemStorage 0) =
        (\<lparr>res_status = 400, res_body = Invalid ''Invalid assessor data'' example_issues\<rparr>, (newMemStorage 0)) \<and>
   putAssessor (accept rescope_assessor) admin_request (newMemStorage 0) =
        (\<lparr>res_status = 404, res_body = Message ''Assessor not found''\<rparr>, (newMemStorage 0)) \<and>
   putRubricTemplate (reject example_issues) admin_request (newMemStorage 0) =
        (\<lparr>res_status = 400, res_body = Invalid ''Invalid rubric template data'' example_issues\<rparr>, (newMemStorage 0)) \<and>
   putRubricTemplate (accept rename_rubric) admin_request (newMemStorage 0) =
        (\<lparr>res_status = 404, res_body = Message ''Rubric template not found''\<rparr>, (newMemStorage 0)) \<and>
   putTask (reject example_issues) admin_request (newMemStorage 0) =
        (\<lparr>res_status = 400, res_body = Invalid ''Invalid task data'' example_issues\<rparr>, (newMemStorage 0)) \<and>
   putTask (accept rename_task) admin_request (newMemStorage 0) =
        (\<lparr>res_status = 404, res_body = Message ''Task not found''\<rparr>, (newMemStorage 0)) \<and>
   putAssessment (reject example_issues) (\<lambda>p. True) 1 2 admin_request (newMemStorage 0) =
        (\<lparr>res_status = 400, res_body = Invalid ''Invalid assessment data'' example_issues\<rparr>, (newMemStorage 0)) \<and>
   putAssessment (accept complete_assessment) (\<lambda>p. True) 1 2 admin_request (newMemStorage 0) =
        (\<lparr>res_status = 404, res_body = Message ''Assessment not found''\<rparr>, (newMemStorage 0))"
proof -
  note T400 = update_routes_reject [where req = admin_request and st = "newMemStorage 0" and errors = example_issues and written = "\<lambda>p. True" and t = 1 and u = 2 and parseSchool = "reject example_issues" and parseClass = "reject example_issues" and parseStudent = "reject example_issues" and parseAssessor = "reject example_issues" and parseTemplate = "reject example_issues" and parseTask = "reject example_issues" and parseAssessment = "reject example_issues" and schoolData = rename_school and classData = rename_class and studentData = move_student and assessorData = rescope_assessor and templateData = rename_rubric and taskData = rename_task and assessmentData = complete_assessment]
  note T404 = update_routes_reject [where req = admin_request and st = "newMemStorage 0" and errors = example_issues and written = "\<lambda>p. True" and t = 1 and u = 2 and parseSchool = "accept rename_school" and parseClass = "accept rename_class" and parseStudent = "accept move_student" and parseAssessor = "accept rescope_assessor" and parseTemplate = "accept rename_rubric" and parseTask = "accept rename_task" and parseAssessment = "accept complete_assessment" and schoolData = rename_school and classData = rename_class and studentData = move_student and assessorData = rescope_assessor and templateData = rename_rubric and taskData = rename_task and assessmentData = complete_assessment]
  have adm: "isAdmin admin_request" and asr: "isAssessor admin_request"
    by (simp_all add: isAdmin_def isAssessor_def admin_request_def)
  have id9: "map_get (schools (newMemStorage 0)) (req_id admin_request) = None"
    "map_get (classes (newMemStorage 0)) (req_id admin_request) = None"
    "map_get (students (newMemStorage 0)) (req_id admin_request) = None"
    "map_get (assessors (newMemStorage 0)) (req_id admin_request) = None"
    "map_get (rubricTemplates (newMemStorage 0)) (req_id admin_request) = None"
    "map_get (tasks (newMemStorage 0)) (req_id admin_request) = None"
    "map_get (assessments (newMemStorage 0)) (req_id admin_request) = None"
    by code_simp+
  from T400 adm asr have c1: "putSchool (reject example_issues) admin_request (newMemStorage 0) =
        (\<lparr>res_status = 400, res_body = Invalid ''Invalid school data'' example_issues\<rparr>, (newMemStorage 0))"
    by (simp add: reject_def)
  from T404 adm asr id9 have d1: "putSchool (accept rename_school) admin_request (newMemStorage 0) =
        (\<lparr>res_status = 404, res_body = Message ''School not found''\<rparr>, (newMemStorage 0))"
    by (simp add: accept_def)
  from T400 adm asr have c2: "putClass (reject example_issues) admin_request (newMemStorage 0) =
        (\<lparr>res_status = 400, res_body = Invalid ''Invalid class data'' example_issues\<rparr>, (newMemStorage 0))"
    by (simp add: reject_def)
  from T404 adm asr id9 have d2: "putClass (accept rename_class) admin_request (newMemStorage 0) =
        (\<lparr>res_status = 404, res_body = Message ''Class not found''\<rparr>, (newMemStorage 0))"
    by (simp add: accept_def)
  from T400 adm asr have c3: "putStudent (reject example_issues) admin_request (newMemStorage 0) =
        (\<lparr>res_status = 400, res_body = Invalid ''Invalid student data'' example_issues\<rparr>, (newMemStorage 0))"
    by (simp add: reject_def)
  from T404 adm asr id9 have d3: "putStudent (accept move_student) admin_request (newMemStorage 0) =
        (\<lparr>res_status = 404, res_body = Message ''Student not found''\<rparr>, (newMemStorage 0))"
    by (simp add: accept_def)
  from T400 adm asr have c4: "putAssessor (reject example_issues) admin_request (newMemStorage 0) =
        (\<lparr>res_status = 400, res_body = Invalid ''Invalid assessor data'' example_issues\<rparr>, (newMemStorage 0))"
    by (simp add: reject_def)
  from T404 adm asr id9 have d4: "putAssessor (accept rescope_assessor) admin_request (newMemStorage 0) =
        (\<lparr>res_status = 404, res_body = Message ''Assessor not found''\<rparr>, (newMemStorage 0))"
    by (simp add: accept_def)
  from T400 adm asr have c5: "putRubricTemplate (reject example_issues) admin_request (newMemStorage 0) =
        (\<lparr>res_status = 400, res_body = Invalid ''Invalid rubric template data'' example_issues\<rparr>, (newMemStorage 0))"
    by (simp add: reject_def)
  from T404 adm asr id9 have d5: "putRubricTemplate (accept rename_rubric) admin_request (newMemStorage 0) =
        (\<lparr>res_status = 404, res_body = Message ''Rubric template not found''\<rparr>, (newMemStorage 0))"
    by (simp add: accept_def)
  from T400 adm asr have c6: "putTask (reject example_issues) admin_request (newMemStorage 0) =
        (\<lparr>res_status = 400, res_body = Invalid ''Invalid task data'' example_issues\<rparr>, (newMemStorage 0))"
    by (simp add: reject_def)
  from T404 adm asr id9 have d6: "putTask (accept rename_task) admin_request (newMemStorage 0) =
        (\<lparr>res_status = 404, res_body = Message ''Task not found''\<rparr>, (newMemStorage 0))"
    by (simp add: accept_def)
  from T400 adm asr have c7: "putAssessment (reject example_issues) (\<lambda>p. True) 1 2 admin_request (newMemStorage 0) =
        (\<lparr>res_status = 400, res_body = Invalid ''Invalid assessment data'' example_issues\<rparr>, (newMemStorage 0))"
    by (simp add: reject_def)
  from T404 adm asr id9 have d7: "putAssessment (accept complete_assessment) (\<lambda>p. True) 1 2 admin_request (newMemStorage 0) =
        (\<lparr>res_status = 404, res_body = Message ''Assessment not found''\<rparr>, (newMemStorage 0))"
    by (simp add: accept_def)
  from adm asr c1 d1 c2 d2 c3 d3 c4 d4 c5 d5 c6 d6 c7 d7 show ?thesis
    by (intro conjI)
qed

text \<open>
  Claim C7 as stated does not hold of a request that fails the authorisation check: the check
  comes first, so a client that is not logged in and sends a body the schema rejects is
  answered with status 403, not 400.
\<close>

theorem unauthorised_update_is_forbidden:
  "reject example_issues (req_body anonymous_request) = (Inl example_issues :: json + PartialSchool) \<and>
   putSchool (reject example_issues) anonymous_request (newMemStorage 0) =
     (\<lparr>res_status = 403, res_body = Message ''Forbidden''\<rparr>, newMemStorage 0) \<and>
   res_status (fst (putSchool (reject example_issues) anonymous_request (newMemStorage 0))) \<noteq> 400"
  by (simp add: putSchool_def isAdmin_def anonymous_request_def reject_def)

subsection \<open>The listing of assessments\<close>







end
